theory Spec2Isabelle
  imports Complex_Main "HOL-Library.Sublist" "HOL-Library.AList" "HOL-Library.List_Lexorder"
    "HOL-Library.Char_ord" "HOL-Library.Multiset"
begin

section \<open>Values of the program\<close>

text \<open>
  Every value the server throws is a JavaScript \<open>Error\<close> object, and the only thing the
  code ever reads from one is its \<open>message\<close>. A thrown value is therefore modelled by
  its message. A function that can throw returns \<open>error + 'a\<close>, with \<open>Inl\<close> for the
  thrown value.
\<close>

datatype error = Error (message: string)

text \<open>
  JavaScript numbers that can come out of \<open>JSON.parse\<close> or \<open>ffprobe\<close>: a finite
  double is a real number; a literal beyond the range of doubles parses to an infinity.
\<close>

datatype number = Finite real | Infinity | NegInfinity

section \<open>The AI client: \<open>callAI\<close>\<close>

type_synonym chat_message = "string \<times> string"

record request =
  url :: string
  model :: string
  messages :: "chat_message list"
  max_tokens :: nat
  temperature :: real
  authorization :: string

text \<open>
  What \<open>axios.post\<close> does with a request: it rejects (transport failure or a status
  outside 2xx), carrying the reason the handler logs
  (\<open>error.response?.data || error.message\<close>), or it resolves with a body, of which
  the code reads \<open>choices[0].message.content\<close>. The body is modelled by the list of
  the contents of its choices.
\<close>

datatype axios_outcome = Rejected string | Resolved "string list"

datatype effect = Post request | ConsoleError string

definition OPENROUTER_BASE_URL :: string where
  "OPENROUTER_BASE_URL = ''https://openrouter.ai/api/v1''"

definition default_model :: string where
  "default_model = ''anthropic/claude-3-haiku''"

definition ConfigurationError :: error where
  "ConfigurationError = Error ''OpenRouter API key is not configured in .env file.''"

definition ServiceError :: error where
  "ServiceError = Error ''Failed to communicate with the AI model.''"

text \<open>
  \<open>callAI\<close> (server.js, lines 37-53). \<open>key\<close> and \<open>model_env\<close> are the environment
  variables \<open>OPENROUTER_API_KEY\<close> and \<open>OPENROUTER_MODEL\<close> (\<open>None\<close> when unset);
  \<open>!OPENROUTER_API_KEY\<close> holds for an unset and for an empty variable, and
  \<open>chatRequest\<close> is the request object of lines 40-47. The result is
  paired with the effects of the call, in order: requests sent and lines written by
  \<open>console.error\<close>. Reading \<open>choices[0].message\<close> of a body without choices is a
  TypeError raised inside the \<open>try\<close>, so it takes the \<open>catch\<close> branch as well.
\<close>

definition chatRequest :: "string \<Rightarrow> string option \<Rightarrow> chat_message list \<Rightarrow> nat \<Rightarrow> request" where
  "chatRequest k model_env msgs maxTokens =
     \<lparr> url = OPENROUTER_BASE_URL @ ''/chat/completions'',
       model = (case model_env of None \<Rightarrow> default_model
                | Some m \<Rightarrow> if m = [] then default_model else m),
       messages = msgs,
       max_tokens = maxTokens,
       temperature = 7 / 10,
       authorization = ''Bearer '' @ k \<rparr>"

definition callAI ::
  "string option \<Rightarrow> string option \<Rightarrow> (request \<Rightarrow> axios_outcome) \<Rightarrow>
     chat_message list \<Rightarrow> nat \<Rightarrow> effect list \<times> (error + string)" where
  "callAI key model_env post msgs maxTokens =
     (case key of
        None \<Rightarrow> ([], Inl ConfigurationError)
      | Some k \<Rightarrow>
          if k = [] then ([], Inl ConfigurationError)
          else
            (let req = chatRequest k model_env msgs maxTokens
             in case post req of
                  Rejected reason \<Rightarrow> ([Post req, ConsoleError reason], Inl ServiceError)
                | Resolved [] \<Rightarrow>
                    ([Post req,
                      ConsoleError ''Cannot read properties of undefined (reading 'message')''],
                     Inl ServiceError)
                | Resolved (content # _) \<Rightarrow> ([Post req], Inr content)))"

text \<open>Whether the text \<open>t\<close> occurs in the text \<open>s\<close>.\<close>

fun contains :: "string \<Rightarrow> string \<Rightarrow> bool" where
  "contains [] t = (t = [])"
| "contains (c # cs) t = (prefix t (c # cs) \<or> contains cs t)"

section \<open>Quiz generation: \<open>generateQuizzes\<close>\<close>

subsection \<open>Parsed JSON\<close>

text \<open>
  The values \<open>JSON.parse\<close> returns. An object is the list of its own properties in
  insertion order; reading a property takes the first entry with that key
  (\<open>map_of\<close>), writing an existing one replaces it in place (\<open>AList.update\<close>).
\<close>

datatype json =
    JNull
  | JBool bool
  | JNum number
  | JString string
  | JArray "json list"
  | JObject "(string \<times> json) list"

text \<open>JavaScript's \<open>ToBoolean\<close> on such a value.\<close>

fun truthy :: "json \<Rightarrow> bool" where
  "truthy JNull = False"
| "truthy (JBool b) = b"
| "truthy (JNum (Finite r)) = (r \<noteq> 0)"
| "truthy (JNum Infinity) = True"
| "truthy (JNum NegInfinity) = True"
| "truthy (JString s) = (s \<noteq> [])"
| "truthy (JArray xs) = True"
| "truthy (JObject kvs) = True"

fun isPrimitive :: "json \<Rightarrow> bool" where
  "isPrimitive (JArray xs) = False"
| "isPrimitive (JObject kvs) = False"
| "isPrimitive v = True"

subsection \<open>Slicing the response\<close>

text \<open>
  \<open>String.prototype.indexOf\<close> and \<open>lastIndexOf\<close> for a one-character search string
  (\<open>-1\<close> when the character does not occur), and \<open>substring\<close>, which clamps both
  arguments to the length of the string and swaps them when the first is the larger.
\<close>

definition String_indexOf :: "string \<Rightarrow> char \<Rightarrow> int" where
  "String_indexOf s c =
     (if c \<in> set s then int (length (takeWhile (\<lambda>x. x \<noteq> c) s)) else - 1)"

definition String_lastIndexOf :: "string \<Rightarrow> char \<Rightarrow> int" where
  "String_lastIndexOf s c =
     (if c \<in> set s
      then int (length s) - 1 - int (length (takeWhile (\<lambda>x. x \<noteq> c) (rev s)))
      else - 1)"

definition substring :: "string \<Rightarrow> int \<Rightarrow> int \<Rightarrow> string" where
  "substring s a b =
     (let n = int (length s);
          a' = max 0 (min a n);
          b' = max 0 (min b n);
          lo = min a' b';
          hi = max a' b'
      in take (nat (hi - lo)) (drop (nat lo) s))"

text \<open>Lines 180-185: the text handed to \<open>JSON.parse\<close>.\<close>

definition extractJsonString :: "string \<Rightarrow> error + string" where
  "extractJsonString response =
     (let startIndex = String_indexOf response (CHR ''['');
          endIndex = String_lastIndexOf response (CHR '']'')
      in if startIndex = - 1 \<or> endIndex = - 1
         then Inl (Error ''AI response did not contain a JSON array.'')
         else Inr (substring response startIndex (endIndex + 1)))"

subsection \<open>The shuffle of one quiz item\<close>

text \<open>
  \<open>quiz.options[quiz.correctAnswer]\<close> converts \<open>quiz.correctAnswer\<close> to a property key.
  For an object this goes through \<open>toString\<close>: the inherited one answers
  \<open>[object Object]\<close>, but an own property of that name (never callable after
  \<open>JSON.parse\<close>) leaves only \<open>valueOf\<close>, which does not give a primitive, and the
  conversion throws a TypeError. For an array it goes through \<open>join\<close>, which converts
  the elements in turn.
\<close>

fun toStringThrows :: "json \<Rightarrow> bool" where
  "toStringThrows (JObject kvs) = (''toString'' \<in> set (map fst kvs))"
| "toStringThrows (JArray xs) = list_ex toStringThrows xs"
| "toStringThrows v = False"

text \<open>
  The property keys that matter on an array made by \<open>JSON.parse\<close>: a canonical
  numeric string names an element, \<open>length\<close> names the length, and every other key
  (\<open>null\<close>, \<open>1.5\<close>, \<open>-1\<close>, \<open>a,b\<close>, \<open>sort\<close>, ...) names no own property.
\<close>

datatype property_key = KIndex nat | KLength | KOther

definition isDigit :: "char \<Rightarrow> bool" where
  "isDigit c = (c \<in> set ''0123456789'')"

definition canonicalIndex :: "string \<Rightarrow> bool" where
  "canonicalIndex s = (s \<noteq> [] \<and> list_all isDigit s \<and> (s = ''0'' \<or> hd s \<noteq> CHR ''0''))"

definition decimalValue :: "string \<Rightarrow> nat" where
  "decimalValue s = foldl (\<lambda>n c. 10 * n + (of_char c - 48)) 0 s"

fun toPropertyKey :: "json \<Rightarrow> property_key" where
  "toPropertyKey JNull = KOther"
| "toPropertyKey (JBool b) = KOther"
| "toPropertyKey (JNum (Finite r)) =
     (if 0 \<le> r \<and> of_int \<lfloor>r\<rfloor> = r then KIndex (nat \<lfloor>r\<rfloor>) else KOther)"
| "toPropertyKey (JNum Infinity) = KOther"
| "toPropertyKey (JNum NegInfinity) = KOther"
| "toPropertyKey (JString s) =
     (if canonicalIndex s then KIndex (decimalValue s)
      else if s = ''length'' then KLength else KOther)"
| "toPropertyKey (JArray [x]) = toPropertyKey x"
| "toPropertyKey (JArray xs) = KOther"
| "toPropertyKey (JObject kvs) = KOther"

text \<open>
  What the property read gives, as far as \<open>indexOf\<close> can tell: the element in a slot
  of the array, a number that is not an element (the length), or a value no element is
  strictly equal to (\<open>undefined\<close>, or an inherited member such as a method of
  \<open>Array.prototype\<close>).
\<close>

datatype answer = Element nat | Value json | NoMatch

definition getProperty :: "json list \<Rightarrow> property_key \<Rightarrow> answer" where
  "getProperty xs k =
     (case k of
        KIndex i \<Rightarrow> if i < length xs then Element i else NoMatch
      | KLength \<Rightarrow> Value (JNum (Finite (real (length xs))))
      | KOther \<Rightarrow> NoMatch)"

text \<open>
  \<open>quiz.options.sort(() => Math.random() - 0.5)\<close>: the comparator ignores its
  arguments, so the order the array ends in is a matter of the engine's sorting
  procedure and of the random draws, and the array holds the same elements afterwards.
  The environment supplies that order as a list \<open>p\<close> of positions: slot \<open>j\<close> of the
  sorted array holds what was in slot \<open>p ! j\<close>. A list that is not an arrangement of
  \<open>0..<length xs\<close> denotes no order and leaves the array as it is.
\<close>

definition sortRandom :: "nat list \<Rightarrow> 'a list \<Rightarrow> 'a list" where
  "sortRandom p xs = (if sort p = [0..<length xs] then map (\<lambda>i. xs ! i) p else xs)"

text \<open>
  \<open>Array.prototype.indexOf\<close> compares with \<open>===\<close>: primitives by value, arrays and
  objects by identity. A slot of the sorted array is paired with the position it had
  before, which is the identity of the element in it; \<open>xs\<close> is the array before sorting.
\<close>

definition strictEquals :: "json list \<Rightarrow> nat \<times> json \<Rightarrow> answer \<Rightarrow> bool" where
  "strictEquals xs slot a =
     (case a of
        Element k \<Rightarrow> if isPrimitive (xs ! k) then snd slot = xs ! k else fst slot = k
      | Value v \<Rightarrow> snd slot = v
      | NoMatch \<Rightarrow> False)"

definition Array_indexOf :: "json list \<Rightarrow> (nat \<times> json) list \<Rightarrow> answer \<Rightarrow> int" where
  "Array_indexOf xs slots a =
     (if list_ex (\<lambda>slot. strictEquals xs slot a) slots
      then int (length (takeWhile (\<lambda>slot. \<not> strictEquals xs slot a) slots))
      else - 1)"

text \<open>
  The body of the \<open>forEach\<close> callback (lines 192-196) on one item, \<open>p\<close> being the
  order the sort produces. Reading \<open>options\<close> of \<open>null\<close> throws; of a number, a
  string, a boolean or an array it gives \<open>undefined\<close>. A truthy \<open>options\<close> that is
  not an array has no callable \<open>sort\<close>, so the call throws.
\<close>

fun shuffleQuiz :: "nat list \<Rightarrow> json \<Rightarrow> error + json" where
  "shuffleQuiz p JNull = Inl (Error ''Cannot read properties of null (reading 'options')'')"
| "shuffleQuiz p (JObject kvs) =
     (case map_of kvs ''options'' of
        None \<Rightarrow> Inr (JObject kvs)
      | Some opts \<Rightarrow>
          if \<not> truthy opts then Inr (JObject kvs)
          else
            (case map_of kvs ''correctAnswer'' of
               None \<Rightarrow> Inr (JObject kvs)
             | Some ca \<Rightarrow>
                 if toStringThrows ca
                 then Inl (Error ''Cannot convert object to primitive value'')
                 else
                   (case opts of
                      JArray xs \<Rightarrow>
                        (let correctAnswerText = getProperty xs (toPropertyKey ca);
                             slots = sortRandom p (zip [0..<length xs] xs);
                             idx = Array_indexOf xs slots correctAnswerText
                         in Inr (JObject
                              (AList.update ''correctAnswer'' (JNum (Finite (of_int idx)))
                                (AList.update ''options'' (JArray (map snd slots)) kvs))))
                    | _ \<Rightarrow> Inl (Error ''quiz.options.sort is not a function''))))"
| "shuffleQuiz p q = Inr q"

text \<open>
  \<open>quizzes.forEach\<close>: the items in order, stopping at the first one that throws.
  \<open>rnd i\<close> is the order the sort of item \<open>i\<close> produces.
\<close>

fun forEachQuiz :: "(nat \<Rightarrow> nat list) \<Rightarrow> nat \<Rightarrow> json list \<Rightarrow> error + json list" where
  "forEachQuiz rnd i [] = Inr []"
| "forEachQuiz rnd i (q # qs) =
     (case shuffleQuiz (rnd i) q of
        Inl e \<Rightarrow> Inl e
      | Inr q' \<Rightarrow>
          (case forEachQuiz rnd (Suc i) qs of
             Inl e \<Rightarrow> Inl e
           | Inr qs' \<Rightarrow> Inr (q' # qs')))"

text \<open>
  Lines 180-199, from the response to the value returned. \<open>parse\<close> is \<open>JSON.parse\<close>,
  a parameter of the model. A parsed value that is not an array has no callable
  \<open>forEach\<close>, and \<open>null\<close> has no properties at all.
\<close>

definition parseQuizzes :: "(string \<Rightarrow> error + json) \<Rightarrow> string \<Rightarrow> error + json" where
  "parseQuizzes parse response =
     (case extractJsonString response of
        Inl e \<Rightarrow> Inl e
      | Inr jsonString \<Rightarrow> parse jsonString)"

definition shuffleQuizzes :: "(nat \<Rightarrow> nat list) \<Rightarrow> json \<Rightarrow> error + json" where
  "shuffleQuizzes rnd quizzes =
     (case quizzes of
        JArray items \<Rightarrow>
          (case forEachQuiz rnd 0 items of
             Inl e \<Rightarrow> Inl e
           | Inr items' \<Rightarrow> Inr (JArray items'))
      | JNull \<Rightarrow> Inl (Error ''Cannot read properties of null (reading 'forEach')'')
      | _ \<Rightarrow> Inl (Error ''quizzes.forEach is not a function''))"

definition readQuizzes ::
  "(string \<Rightarrow> error + json) \<Rightarrow> (nat \<Rightarrow> nat list) \<Rightarrow> string \<Rightarrow> error + json" where
  "readQuizzes parse rnd response =
     (case parseQuizzes parse response of
        Inl e \<Rightarrow> Inl e
      | Inr quizzes \<Rightarrow> shuffleQuizzes rnd quizzes)"

subsection \<open>The retry loop\<close>

definition quizPrompt :: "string \<Rightarrow> string" where
  \<open>quizPrompt transcript =
     ''Based on this transcript, create 5 multiple choice questions with 4 options each. Return ONLY a valid JSON array in this exact format, with no other text or explanation: [{"question": "...", "options": ["A", "B", "C", "D"], "correctAnswer": 1, "explanation": "..."}]\<newline>\<newline>Transcript: ''
       @ transcript\<close>

definition correctivePrompt :: "string \<Rightarrow> string" where
  \<open>correctivePrompt lastResponse =
     ''The following text is not valid JSON. Please fix any syntax errors (like unescaped quotes or trailing commas) and return ONLY the corrected, valid JSON array, with no other text:\<newline>\<newline>''
       @ lastResponse\<close>

definition QuizGenerationError :: "string \<Rightarrow> error" where
  "QuizGenerationError lastResponse =
     Error (''The AI failed to generate a valid quiz after multiple attempts. Last response: ''
              @ lastResponse)"

text \<open>
  The loop of lines 167-208, from iteration \<open>i\<close> with the current \<open>lastResponse\<close>.
  \<open>ai\<close> is \<open>callAI\<close> with the default token limit, as a function of the messages;
  \<open>rnd i\<close> gives the orders of the sorts of iteration \<open>i\<close>. The result is paired with
  the list of the messages of each call made to \<open>ai\<close>, in order. A loop that ran out
  would return \<open>undefined\<close>, which is \<open>None\<close>.
\<close>

function generateQuizzesFrom ::
  "(chat_message list \<Rightarrow> error + string) \<Rightarrow> (string \<Rightarrow> error + json) \<Rightarrow>
     (nat \<Rightarrow> nat \<Rightarrow> nat list) \<Rightarrow> string \<Rightarrow> nat \<Rightarrow> string \<Rightarrow>
     chat_message list list \<times> (error + json option)" where
  "generateQuizzesFrom ai parse rnd transcript i lastResponse =
     (if i < 2 then
        (let msgs = [(''user'', if i = 0 then quizPrompt transcript
                                else correctivePrompt lastResponse)]
         in case ai msgs of
              Inl e \<Rightarrow>
                if i = 1 then ([msgs], Inl (QuizGenerationError lastResponse))
                else (case generateQuizzesFrom ai parse rnd transcript (i + 1) lastResponse of
                        (calls, r) \<Rightarrow> (msgs # calls, r))
            | Inr response \<Rightarrow>
                (case readQuizzes parse (rnd i) response of
                   Inr quizzes \<Rightarrow> ([msgs], Inr (Some quizzes))
                 | Inl e \<Rightarrow>
                     if i = 1 then ([msgs], Inl (QuizGenerationError response))
                     else (case generateQuizzesFrom ai parse rnd transcript (i + 1) response of
                             (calls, r) \<Rightarrow> (msgs # calls, r))))
      else ([], Inr None))"
  by pat_completeness auto
termination
  by (relation "measure (\<lambda>(ai, parse, rnd, transcript, i, lastResponse). 2 - i)") auto

declare generateQuizzesFrom.simps [simp del]

definition generateQuizzes ::
  "(chat_message list \<Rightarrow> error + string) \<Rightarrow> (string \<Rightarrow> error + json) \<Rightarrow>
     (nat \<Rightarrow> nat \<Rightarrow> nat list) \<Rightarrow> string \<Rightarrow>
     chat_message list list \<times> (error + json option)" where
  "generateQuizzes ai parse rnd transcript = generateQuizzesFrom ai parse rnd transcript 0 []"

section \<open>Frame extraction: the number of frames\<close>

text \<open>
  \<open>extractFrames\<close> (lines 232-247) asks \<open>ffprobe\<close> for the duration and requests
  \<open>Math.min(12, Math.max(4, Math.floor(duration / 30)))\<close> screenshots (line 238; the
  function itself follows the environment, below). The division is
  taken over the reals: for a positive double \<open>d\<close> the rounded quotient \<open>d / 30\<close> has
  the same floor as the exact one (the gap between \<open>d\<close> and a multiple of 30 above it is
  at least 16 units in the last place of the quotient, which divided by 30 is more than
  half a unit).
\<close>

definition frameCount :: "real \<Rightarrow> int" where
  "frameCount duration = min 12 (max 4 \<lfloor>duration / 30\<rfloor>)"


text \<open>
  The request \<open>extractFrames\<close> makes to \<open>screenshots\<close> (line 239), and what the
  function does to the outside, in order: creating the directory of the frames, probing
  the video, requesting the screenshots.
\<close>

record screenshot_request =
  shot_count :: int
  shot_folder :: string
  shot_filename :: string
  shot_size :: string

datatype frames_effect =
    MkdirSync string
  | Ffprobe string
  | Screenshots string screenshot_request


record slide =
  timestamp :: int
  image_ref :: string

definition endsWith :: "string \<Rightarrow> string \<Rightarrow> bool" where
  "endsWith s t = suffix t s"

section \<open>The lecture record and the store\<close>

text \<open>
  \<open>lectureSchema\<close> (lines 56-71). Optional fields are \<open>None\<close> until set; the two
  arrays are empty until set, as Mongoose creates them. \<open>processingStage\<close> is a plain
  string in the schema, with no list of allowed values.
\<close>

record lecture =
  title :: string
  videoPath :: "string option"
  youtubeUrl :: "string option"
  duration :: "real option"
  transcriptMd :: "string option"
  transcriptHtml :: "string option"
  summaryMd :: "string option"
  summaryHtml :: "string option"
  slides :: "slide list"
  quizzes :: "json list"
  uploadDate :: nat
  processingError :: "string option"
  source :: string
  processingStage :: string

definition newLecture :: "string \<Rightarrow> string option \<Rightarrow> string option \<Rightarrow> string \<Rightarrow> nat \<Rightarrow> lecture" where
  "newLecture t path link src now =
     \<lparr> title = t, videoPath = path, youtubeUrl = link, duration = None,
       transcriptMd = None, transcriptHtml = None, summaryMd = None, summaryHtml = None,
       slides = [], quizzes = [], uploadDate = now, processingError = None,
       source = src, processingStage = ''uploaded'' \<rparr>"

text \<open>
  The update documents the orchestrator passes to \<open>findByIdAndUpdate\<close> are lists of
  field assignments, applied in order onto the stored record (merge, not replace).
  \<open>Quizzes\<close> carries what \<open>generateQuizzes\<close> returned: an array is stored, and
  \<open>undefined\<close> leaves the field as it is. The record holds the values as they are
  written: the casting to the schema's types that Mongoose performs on the way is not
  part of the model.
\<close>

datatype field =
    ProcessingStage string
  | ProcessingError "string option"
  | TranscriptMd string
  | TranscriptHtml string
  | SummaryMd string
  | SummaryHtml string
  | Quizzes "json option"
  | Slides "slide list"
  | VideoPath string

fun setField :: "field \<Rightarrow> lecture \<Rightarrow> lecture" where
  "setField (ProcessingStage s) l = l\<lparr>processingStage := s\<rparr>"
| "setField (ProcessingError e) l = l\<lparr>processingError := e\<rparr>"
| "setField (TranscriptMd s) l = l\<lparr>transcriptMd := Some s\<rparr>"
| "setField (TranscriptHtml s) l = l\<lparr>transcriptHtml := Some s\<rparr>"
| "setField (SummaryMd s) l = l\<lparr>summaryMd := Some s\<rparr>"
| "setField (SummaryHtml s) l = l\<lparr>summaryHtml := Some s\<rparr>"
| "setField (Quizzes (Some (JArray qs))) l = l\<lparr>quizzes := qs\<rparr>"
| "setField (Quizzes q) l = l"
| "setField (Slides ss) l = l\<lparr>slides := ss\<rparr>"
| "setField (VideoPath p) l = l\<lparr>videoPath := Some p\<rparr>"

definition applyUpdate :: "field list \<Rightarrow> lecture \<Rightarrow> lecture" where
  "applyUpdate doc l = fold setField doc l"

section \<open>The orchestrator\<close>

text \<open>
  Everything outside the process is a parameter of the model: the environment variables,
  the HTTP client, \<open>JSON.parse\<close>, the orders the random sorts produce, the adapters
  that run external programs (\<open>yt-dlp\<close>, \<open>ffmpeg\<close>, \<open>whisper\<close>), \<open>remark\<close> and the
  file system, and the arithmetic of doubles where its rounding matters. An adapter is a
  function from its arguments to the value its promise resolves with or the error it
  rejects with. The AI is a function of the request: within
  one run no two requests are the same, since the prompts of formatting, summary, quiz
  and correction begin differently.
\<close>

record env =
  OPENROUTER_API_KEY :: "string option"
  OPENROUTER_MODEL :: "string option"
  axios_post :: "request \<Rightarrow> axios_outcome"
  JSON_parse :: "string \<Rightarrow> error + json"
  Math_random :: "nat \<Rightarrow> nat \<Rightarrow> nat list"
  downloadYouTubeVideo :: "string \<Rightarrow> string \<Rightarrow> error + string"
  extractAudio :: "string \<Rightarrow> error + string"
  transcribeWithWhisper :: "string \<Rightarrow> error + string"
  remark_html :: "string \<Rightarrow> error + string"
  ffprobe :: "string \<Rightarrow> error + real"
  screenshots :: "string \<Rightarrow> screenshot_request \<Rightarrow> error + unit"
  readdirSync :: "string \<Rightarrow> string list"
  existsSync :: "string \<Rightarrow> bool"
  mkdirSync :: "string \<Rightarrow> error + unit"
  unlinkSync :: "string \<Rightarrow> error + unit"
  double_div :: "real \<Rightarrow> real \<Rightarrow> real"
  double_mul :: "real \<Rightarrow> real \<Rightarrow> real"

text \<open>
  \<open>extractFrames\<close> (lines 232-247) in an environment, with what it does to the
  outside. The directory is created when it does not exist; \<open>mkdirSync\<close> throws inside
  the executor of the promise, which rejects with that error. \<open>ffprobe\<close> answers with
  the duration or an error. \<open>screenshots\<close> is asked for \<open>frameCount\<close> frames, and
  the files found in the directory afterwards are filtered, sorted and labelled with
  \<open>Math.floor((i + 1) * (duration / frameCount))\<close>. This product and this quotient are
  those of doubles, rounded as IEEE 754 rounds them, and \<open>double_mul\<close> and
  \<open>double_div\<close> of the environment stand for them: here, unlike in \<open>frameCount\<close>,
  the rounding can change the floor. \<open>readdirSync\<close> is taken to answer.
\<close>

definition extractFrames ::
  "env \<Rightarrow> string \<Rightarrow> string \<Rightarrow> frames_effect list \<times> (error + slide list)" where
  "extractFrames E path lectureId =
     (let framesDir = ''uploads/frames_'' @ lectureId;
          made = (if existsSync E framesDir then [] else [MkdirSync framesDir])
      in case (if existsSync E framesDir then Inr () else mkdirSync E framesDir) of
           Inl err \<Rightarrow> (made, Inl err)
         | Inr u \<Rightarrow>
             (case ffprobe E path of
                Inl err \<Rightarrow> (made @ [Ffprobe path], Inl err)
              | Inr seconds \<Rightarrow>
                  (let request = \<lparr> shot_count = frameCount seconds,
                                     shot_folder = framesDir,
                                     shot_filename = ''slide_%03d.png'',
                                     shot_size = ''1280x720'' \<rparr>;
                       effects = made @ [Ffprobe path, Screenshots path request]
                   in case screenshots E path request of
                        Inl err \<Rightarrow> (effects, Inl err)
                      | Inr v \<Rightarrow>
                          (effects,
                           Inr (map (\<lambda>(i, f).
                                  \<lparr> timestamp =
                                      \<lfloor>double_mul E (real i + 1)
                                         (double_div E seconds (real_of_int (frameCount seconds)))\<rfloor>,
                                    image_ref = ''/frames_'' @ lectureId @ ''/'' @ f \<rparr>)
                                (enumerate 0 (sort (filter (\<lambda>f. endsWith f ''.png'')
                                                       (readdirSync E framesDir)))))))))"

text \<open>The text post-processors (lines 130-133, 155-158, 162-209) in an environment.\<close>

definition formatTranscript :: "env \<Rightarrow> string \<Rightarrow> error + string" where
  \<open>formatTranscript E rawTranscript =
     snd (callAI (OPENROUTER_API_KEY E) (OPENROUTER_MODEL E) (axios_post E)
            [(''user'',
              ''Format this raw transcript by adding paragraph breaks for readability. Do not change any words:\<newline>\<newline>''
                @ rawTranscript)]
            2500)\<close>

definition generateSummary :: "env \<Rightarrow> string \<Rightarrow> error + string" where
  \<open>generateSummary E transcript =
     snd (callAI (OPENROUTER_API_KEY E) (OPENROUTER_MODEL E) (axios_post E)
            [(''user'',
              ''Create a comprehensive summary of this transcript. Use headings and bullet points:\<newline>\<newline>''
                @ transcript)]
            1500)\<close>

definition generateQuizzesIn :: "env \<Rightarrow> string \<Rightarrow> error + json option" where
  "generateQuizzesIn E transcript =
     snd (generateQuizzes
            (\<lambda>msgs. snd (callAI (OPENROUTER_API_KEY E) (OPENROUTER_MODEL E) (axios_post E) msgs 1500))
            (JSON_parse E) (Math_random E) transcript)"

text \<open>
  The state the orchestrator works on: the store, and the log of what the run has done
  so far, in order: every update document sent to the store and every call of a stage
  function.
\<close>

datatype work =
    DownloadYouTubeVideo
  | ExtractAudio
  | TranscribeWithWhisper
  | FormatTranscript
  | Remark
  | GenerateSummary
  | GenerateQuizzes
  | ExtractFrames
  | UnlinkSync

datatype event = Update string "field list" | Call work

record world =
  db :: "string \<Rightarrow> lecture option"
  trace :: "event list"

type_synonym 'a async = "world \<Rightarrow> (error + 'a) \<times> world"

text \<open>
  \<open>Lecture.findByIdAndUpdate\<close>: merges the document into the record with that id, if
  there is one, and the update is logged. The store itself is taken to work: every
  update resolves.
\<close>

definition persist :: "string \<Rightarrow> field list \<Rightarrow> world \<Rightarrow> world" where
  "persist lectureId doc w =
     w\<lparr> db := (case db w lectureId of
                 None \<Rightarrow> db w
               | Some l \<Rightarrow> (db w)(lectureId \<mapsto> applyUpdate doc l)),
        trace := trace w @ [Update lectureId doc] \<rparr>"

definition findByIdAndUpdate :: "string \<Rightarrow> field list \<Rightarrow> unit async" where
  "findByIdAndUpdate lectureId doc w = (Inr (), persist lectureId doc w)"

text \<open>\<open>await f(...)\<close>: the call is logged and its outcome is the outcome of the step.\<close>

definition logged :: "work \<Rightarrow> world \<Rightarrow> world" where
  "logged k w = w\<lparr> trace := trace w @ [Call k] \<rparr>"

definition await :: "work \<Rightarrow> error + 'a \<Rightarrow> 'a async" where
  "await k r w = (r, logged k w)"

definition skip :: "unit async" where
  "skip w = (Inr (), w)"

text \<open>Sequencing (a statement that throws ends the block) and \<open>try ... catch\<close>.\<close>

definition andThen :: "'a async \<Rightarrow> ('a \<Rightarrow> 'b async) \<Rightarrow> 'b async" where
  "andThen m f w = (case m w of (Inl e, w') \<Rightarrow> (Inl e, w') | (Inr x, w') \<Rightarrow> f x w')"

definition tryCatch :: "'a async \<Rightarrow> (error \<Rightarrow> 'a async) \<Rightarrow> 'a async" where
  "tryCatch m h w = (case m w of (Inl e, w') \<Rightarrow> h e w' | (Inr x, w') \<Rightarrow> (Inr x, w'))"

text \<open>The \<open>try\<close> block of \<open>processLecture\<close> (lines 254-276).\<close>

definition processLectureBody :: "env \<Rightarrow> string \<Rightarrow> string \<Rightarrow> unit async" where
  "processLectureBody E lectureId path =
     andThen (findByIdAndUpdate lectureId [ProcessingStage ''extracting_audio'']) (\<lambda>_.
     andThen (await ExtractAudio (extractAudio E path)) (\<lambda>audioPath.
     andThen (findByIdAndUpdate lectureId [ProcessingStage ''transcribing'']) (\<lambda>_.
     andThen (await TranscribeWithWhisper (transcribeWithWhisper E audioPath)) (\<lambda>rawTranscript.
     andThen (await FormatTranscript (formatTranscript E rawTranscript)) (\<lambda>transcript.
     andThen (await Remark (remark_html E transcript)) (\<lambda>transcriptHtml'.
     andThen (findByIdAndUpdate lectureId
                [ProcessingStage ''summarizing'', TranscriptMd transcript,
                 TranscriptHtml transcriptHtml']) (\<lambda>_.
     andThen (await GenerateSummary (generateSummary E transcript)) (\<lambda>summary.
     andThen (await Remark (remark_html E summary)) (\<lambda>summaryHtml'.
     andThen (await GenerateQuizzes (generateQuizzesIn E transcript)) (\<lambda>quizzes'.
     andThen (await ExtractFrames (snd (extractFrames E path lectureId))) (\<lambda>slides'.
     andThen (findByIdAndUpdate lectureId
                [SummaryMd summary, SummaryHtml summaryHtml', Quizzes quizzes', Slides slides',
                 ProcessingStage ''complete'', ProcessingError None]) (\<lambda>_.
     if existsSync E audioPath then await UnlinkSync (unlinkSync E audioPath)
     else skip))))))))))))"

text \<open>The \<open>catch\<close> block (lines 277-280 and 289-292).\<close>

definition recordFailure :: "string \<Rightarrow> error \<Rightarrow> unit async" where
  "recordFailure lectureId err =
     findByIdAndUpdate lectureId
       [ProcessingError (Some (message err)), ProcessingStage ''failed'']"

definition processLecture :: "env \<Rightarrow> string \<Rightarrow> string \<Rightarrow> string \<Rightarrow> unit async" where
  "processLecture E lectureId path ttl =
     tryCatch (processLectureBody E lectureId path) (recordFailure lectureId)"

text \<open>\<open>processYouTubeLecture\<close> (lines 283-293).\<close>

definition processYouTubeLecture :: "env \<Rightarrow> string \<Rightarrow> string \<Rightarrow> string \<Rightarrow> unit async" where
  "processYouTubeLecture E lectureId link ttl =
     tryCatch
       (andThen (findByIdAndUpdate lectureId [ProcessingStage ''downloading'']) (\<lambda>_.
        andThen (await DownloadYouTubeVideo (downloadYouTubeVideo E link lectureId)) (\<lambda>path.
        andThen (findByIdAndUpdate lectureId [VideoPath path]) (\<lambda>_.
        processLecture E lectureId path ttl))))
       (recordFailure lectureId)"

text \<open>The state in which the YouTube variant enters the shared pipeline.\<close>

definition afterDownload :: "string \<Rightarrow> string \<Rightarrow> world \<Rightarrow> world" where
  "afterDownload lectureId path w =
     persist lectureId [VideoPath path]
       (logged DownloadYouTubeVideo (persist lectureId [ProcessingStage ''downloading''] w))"

text \<open>
  The two routes that start a run (lines 297-310): the record is created and saved
  under a new id, and the run is started on it. The response is sent without waiting
  for the run; the model follows the run to its end.
\<close>

definition save :: "string \<Rightarrow> lecture \<Rightarrow> world \<Rightarrow> world" where
  "save lectureId l w = w\<lparr> db := (db w)(lectureId \<mapsto> l) \<rparr>"

definition upload :: "env \<Rightarrow> string \<Rightarrow> string \<Rightarrow> string \<Rightarrow> nat \<Rightarrow> world \<Rightarrow> (error + unit) \<times> world" where
  "upload E lectureId ttl path now w =
     processLecture E lectureId path ttl
       (save lectureId (newLecture ttl (Some path) None ''file'' now) w)"

definition uploadYoutube :: "env \<Rightarrow> string \<Rightarrow> string \<Rightarrow> string \<Rightarrow> nat \<Rightarrow> world \<Rightarrow> (error + unit) \<times> world" where
  "uploadYoutube E lectureId ttl link now w =
     processYouTubeLecture E lectureId link ttl
       (save lectureId (newLecture ttl None (Some link) ''youtube'' now) w)"

text \<open>
  The states a record goes through: the record as created, and the record after each
  update document of the log addressed to it.
\<close>

fun history :: "string \<Rightarrow> event list \<Rightarrow> lecture \<Rightarrow> lecture list" where
  "history lectureId [] l = [l]"
| "history lectureId (Update i doc # es) l =
     (if i = lectureId then l # history lectureId es (applyUpdate doc l)
      else history lectureId es l)"
| "history lectureId (Call k # es) l = history lectureId es l"

text \<open>What has been logged between the state \<open>w\<close> and the later state \<open>w'\<close>.\<close>

definition since :: "world \<Rightarrow> world \<Rightarrow> event list" where
  "since w w' = drop (length (trace w)) (trace w')"

text \<open>The stage values persisted by a log, in order.\<close>

fun stagesOf :: "field list \<Rightarrow> string list" where
  "stagesOf [] = []"
| "stagesOf (ProcessingStage s # fs) = s # stagesOf fs"
| "stagesOf (f # fs) = stagesOf fs"

fun persistedStages :: "event list \<Rightarrow> string list" where
  "persistedStages [] = []"
| "persistedStages (Update i doc # es) = stagesOf doc @ persistedStages es"
| "persistedStages (Call k # es) = persistedStages es"

text \<open>The stage values of the design (specification, section 4.7).\<close>

definition stageValues :: "string list" where
  "stageValues = [''uploaded'', ''downloading'', ''extracting_audio'', ''transcribing'',
                  ''summarizing'', ''complete'', ''failed'']"

definition stageInvariant :: "lecture \<Rightarrow> bool" where
  "stageInvariant l =
     (processingStage l \<in> set stageValues \<and>
      ((processingError l \<noteq> None) = (processingStage l = ''failed'')))"







section \<open>The progress report\<close>

text \<open>\<open>GET /api/status/:lectureId\<close> (lines 315-324); \<open>None\<close> is the 404 answer.\<close>

record progress =
  isComplete :: bool
  stage :: string
  error_text :: "string option"
  hasTranscript :: bool
  hasSummary :: bool
  hasQuizzes :: bool
  hasSlides :: bool

definition truthyString :: "string option \<Rightarrow> bool" where
  "truthyString v = (case v of None \<Rightarrow> False | Some s \<Rightarrow> s \<noteq> [])"

definition status :: "(string \<Rightarrow> lecture option) \<Rightarrow> string \<Rightarrow> progress option" where
  "status store lectureId =
     (case store lectureId of
        None \<Rightarrow> None
      | Some l \<Rightarrow>
          Some \<lparr> isComplete = (processingStage l = ''complete''),
                 stage = processingStage l,
                 error_text = processingError l,
                 hasTranscript = truthyString (transcriptMd l),
                 hasSummary = truthyString (summaryMd l),
                 hasQuizzes = (length (quizzes l) \<noteq> 0),
                 hasSlides = (length (slides l) \<noteq> 0) \<rparr>)"

text \<open>
  The items on which the callback raises no error, read off the amended claim C9: every
  item but \<open>null\<close>, an item whose \<open>correctAnswer\<close> cannot be converted to a property
  key, and an item with a \<open>correctAnswer\<close> and a truthy \<open>options\<close> that is not an
  array. And the items that lack an \<open>options\<close> or a \<open>correctAnswer\<close> field.
\<close>

fun isArray :: "json \<Rightarrow> bool" where
  "isArray (JArray xs) = True"
| "isArray v = False"

fun shuffleAccepts :: "json \<Rightarrow> bool" where
  "shuffleAccepts JNull = False"
| "shuffleAccepts (JObject kvs) =
     (case map_of kvs ''options'' of
        None \<Rightarrow> True
      | Some opts \<Rightarrow>
          (case map_of kvs ''correctAnswer'' of
             None \<Rightarrow> True
           | Some ca \<Rightarrow> if truthy opts then isArray opts \<and> \<not> toStringThrows ca else True))"
| "shuffleAccepts q = True"

fun lacksField :: "json \<Rightarrow> bool" where
  "lacksField (JObject kvs) =
     (map_of kvs ''options'' = None \<or> map_of kvs ''correctAnswer'' = None)"
| "lacksField q = True"

section \<open>Concrete inputs\<close>

text \<open>
  A quiz text and its parsed value, and \<open>JSON.parse\<close> on the few texts the examples
  below hand to it: it answers as \<open>JSON.parse\<close> does on the texts listed, and rejects
  every other text; the examples hand it no other text that \<open>JSON.parse\<close> would accept.
\<close>

definition sampleQuizText :: string where
  \<open>sampleQuizText =
     ''[{"question":"q","options":["a","b","c","d"],"correctAnswer":1,"explanation":"e"}]''\<close>

definition sampleQuiz :: json where
  "sampleQuiz =
     JObject [(''question'', JString ''q''),
              (''options'', JArray [JString ''a'', JString ''b'', JString ''c'', JString ''d'']),
              (''correctAnswer'', JNum (Finite 1)),
              (''explanation'', JString ''e'')]"

definition looseQuizText :: string where
  \<open>looseQuizText = ''[{"options":["a","b"],"correctAnswer":7},{"question":"q"}]''\<close>

definition looseQuizzes :: "json list" where
  "looseQuizzes =
     [JObject [(''options'', JArray [JString ''a'', JString ''b'']),
               (''correctAnswer'', JNum (Finite 7))],
      JObject [(''question'', JString ''q'')]]"

definition keyedOptionsText :: string where
  \<open>keyedOptionsText = ''[{"options":{"A":"x","B":"y"},"correctAnswer":"A"}]''\<close>

definition keyedOptions :: "json list" where
  "keyedOptions =
     [JObject [(''options'', JObject [(''A'', JString ''x''), (''B'', JString ''y'')]),
               (''correctAnswer'', JString ''A'')]]"

definition parseTable :: "string \<Rightarrow> error + json" where
  "parseTable s =
     (if s = ''[]'' then Inr (JArray [])
      else if s = ''[1]'' then Inr (JArray [JNum (Finite 1)])
      else if s = ''[null]'' then Inr (JArray [JNull])
      else if s = sampleQuizText then Inr (JArray [sampleQuiz])
      else if s = looseQuizText then Inr (JArray looseQuizzes)
      else if s = keyedOptionsText then Inr (JArray keyedOptions)
      else Inl (Error ''Unexpected token''))"

text \<open>
  An environment in which every stage succeeds: the AI answers the quiz prompt with the
  sample quiz and every other prompt with \<open>Hello world.\<close>, the video lasts 90 seconds
  and four frames are found. And three in which a stage fails: audio extraction, quiz
  generation (the AI never answers with an array) and the download.
\<close>

definition sampleEnv :: env where
  "sampleEnv =
     \<lparr> OPENROUTER_API_KEY = Some ''sk-test'',
       OPENROUTER_MODEL = None,
       axios_post = (\<lambda>req. Resolved [if prefix ''Based on'' (snd (hd (messages req)))
                                     then sampleQuizText else ''Hello world.'']),
       JSON_parse = parseTable,
       Math_random = (\<lambda>i j. [2, 0, 3, 1]),
       downloadYouTubeVideo = (\<lambda>link lectureId. Inr (''uploads/'' @ lectureId @ ''-youtube.mp4'')),
       extractAudio = (\<lambda>p. Inr ''uploads/lecture.wav''),
       transcribeWithWhisper = (\<lambda>a. Inr ''Hello world.''),
       remark_html = (\<lambda>s. Inr (''<p>'' @ s @ ''</p>'')),
       ffprobe = (\<lambda>p. Inr 90),
       screenshots = (\<lambda>p r. Inr ()),
       readdirSync = (\<lambda>d. [''slide_001.png'', ''slide_002.png'', ''slide_003.png'',
                            ''slide_004.png'']),
       existsSync = (\<lambda>p. True),
       mkdirSync = (\<lambda>d. Inr ()),
       unlinkSync = (\<lambda>p. Inr ()),
       double_div = (\<lambda>x y. x / y),
       double_mul = (\<lambda>x y. x * y) \<rparr>"



definition noQuizEnv :: env where
  "noQuizEnv = sampleEnv\<lparr> axios_post := (\<lambda>req. Resolved [''Hello world.'']) \<rparr>"


definition emptyWorld :: world where
  "emptyWorld = \<lparr> db = Map.empty, trace = [] \<rparr>"

section \<open>Properties\<close>

lemmas parseTable_simps =
  parseTable_def sampleQuizText_def looseQuizText_def keyedOptionsText_def

subsection \<open>Frame count\<close>





subsection \<open>The AI client\<close>

text \<open>
  C8, as amended. Without a credential (unset or empty) \<open>callAI\<close> fails with the
  configuration error and no request is sent. When the request is rejected (a transport
  failure or a response outside 2xx), it fails with the service error, whose message is
  the fixed text \<open>Failed to communicate with the AI model.\<close>; the upstream reason goes
  to the error log only.
\<close>

theorem callAI_failures:
  "((key = None \<or> key = Some []) \<longrightarrow> callAI key m post msgs n = ([], Inl ConfigurationError)) \<and>
   (k \<noteq> [] \<and> post (chatRequest k m msgs n) = Rejected reason \<longrightarrow>
      callAI (Some k) m post msgs n
        = ([Post (chatRequest k m msgs n), ConsoleError reason], Inl ServiceError)) \<and>
   message ServiceError = ''Failed to communicate with the AI model.''"
  by (auto simp: callAI_def ServiceError_def)

text \<open>The two failures at concrete inputs.\<close>

theorem callAI_failures_witness:
  "callAI None None (\<lambda>r. Rejected ''ECONNRESET'') [(''user'', ''hi'')] 1500 = ([], Inl ConfigurationError) \<and>
   callAI (Some ''sk'') None (\<lambda>r. Rejected ''ECONNRESET'') [(''user'', ''hi'')] 1500
     = ([Post (chatRequest ''sk'' None [(''user'', ''hi'')] 1500), ConsoleError ''ECONNRESET''],
        Inl ServiceError)"
  using callAI_failures [of None None "\<lambda>r. Rejected ''ECONNRESET''" "[(''user'', ''hi'')]" 1500
          "''sk''" "''ECONNRESET''"]
  by simp

text \<open>
  The claim as the specification words it, that the message of the error wraps the
  upstream reason, fails: the reason \<open>ECONNRESET\<close> does not occur in the message.
\<close>

theorem callAI_wraps_reason_counterexample:
  "snd (callAI (Some ''sk'') None (\<lambda>r. Rejected ''ECONNRESET'') [(''user'', ''hi'')] 1500)
     = Inl (Error ''Failed to communicate with the AI model.'') \<and>
   \<not> contains ''Failed to communicate with the AI model.'' ''ECONNRESET''"
  by (simp add: callAI_def ServiceError_def)

subsection \<open>Slicing and parsing the response\<close>

lemma String_indexOf_first:
  "c \<notin> set before \<Longrightarrow> String_indexOf (before @ c # rest) c = int (length before)"
proof -
  assume "c \<notin> set before"
  then have "takeWhile (\<lambda>x. x \<noteq> c) (before @ c # rest) = before"
    by (induction before) auto
  then show ?thesis by (simp add: String_indexOf_def)
qed

lemma String_lastIndexOf_last:
  "c \<notin> set after \<Longrightarrow>
     String_lastIndexOf (front @ c # after) c = int (length front)"
proof -
  assume "c \<notin> set after"
  then have "takeWhile (\<lambda>x. x \<noteq> c) (rev after @ c # rev front) = rev after"
    by (induction after rule: rev_induct) auto
  then show ?thesis by (simp add: String_lastIndexOf_def)
qed

lemma extractJsonString_embedded:
  assumes "CHR ''['' \<notin> set before" and "CHR '']'' \<notin> set after"
  shows "extractJsonString (before @ CHR ''['' # body @ CHR '']'' # after)
           = Inr (CHR ''['' # body @ [CHR '']''])"
proof -
  let ?r = "before @ CHR ''['' # body @ CHR '']'' # after"
  have s: "String_indexOf ?r (CHR ''['') = int (length before)"
    using assms(1) by (rule String_indexOf_first)
  have "?r = (before @ CHR ''['' # body) @ CHR '']'' # after" by simp
  then have e: "String_lastIndexOf ?r (CHR '']'') = int (length (before @ CHR ''['' # body))"
    using assms(2) String_lastIndexOf_last by metis
  have n: "nat (2 + int (length body)) = Suc (Suc (length body))" by simp
  show ?thesis
    unfolding extractJsonString_def s e
    by (simp add: substring_def Let_def n)
qed

lemma extractJsonString_none:
  "CHR ''['' \<notin> set r \<or> CHR '']'' \<notin> set r \<Longrightarrow>
     extractJsonString r = Inl (Error ''AI response did not contain a JSON array.'')"
  by (auto simp: extractJsonString_def String_indexOf_def String_lastIndexOf_def Let_def)

lemma String_lastIndexOf_bound: "String_lastIndexOf r c < int (length r)"
  by (simp add: String_lastIndexOf_def)

lemma extractJsonString_slice:
  assumes "0 \<le> String_indexOf r (CHR ''['')"
    and "String_indexOf r (CHR ''['') \<le> String_lastIndexOf r (CHR '']'')"
  shows "extractJsonString r
           = Inr (take (nat (String_lastIndexOf r (CHR '']'') + 1 - String_indexOf r (CHR ''['')))
                    (drop (nat (String_indexOf r (CHR ''[''))) r))"
  using assms String_lastIndexOf_bound [of r "CHR '']''"]
  by (simp add: extractJsonString_def substring_def Let_def min_def max_def)


text \<open>
  C4, as amended. The parser hands to \<open>JSON.parse\<close> the slice of the response from
  its first \<open>[\<close> to its last \<open>]\<close>, both included (when the first \<open>[\<close> does not
  stand after the last \<open>]\<close>). When the response is an array text \<open>[ body ]\<close>
  preceded by prose without \<open>[\<close> and followed by prose without \<open>]\<close>, that slice
  is exactly the array text and the parser returns what \<open>JSON.parse\<close> returns on it.
  A response with no \<open>[\<close> or no \<open>]\<close> fails.
\<close>

theorem parseQuizzes_embedded:
  "(0 \<le> String_indexOf r (CHR ''['')
      \<and> String_indexOf r (CHR ''['') \<le> String_lastIndexOf r (CHR '']'') \<longrightarrow>
      parseQuizzes parse r
        = parse (take (nat (String_lastIndexOf r (CHR '']'') + 1 - String_indexOf r (CHR ''['')))
                   (drop (nat (String_indexOf r (CHR ''[''))) r))) \<and>
   (CHR ''['' \<notin> set before \<and> CHR '']'' \<notin> set after \<longrightarrow>
      extractJsonString (before @ CHR ''['' # body @ CHR '']'' # after)
        = Inr (CHR ''['' # body @ [CHR '']'']) \<and>
      parseQuizzes parse (before @ CHR ''['' # body @ CHR '']'' # after)
        = parse (CHR ''['' # body @ [CHR '']''])) \<and>
   (CHR ''['' \<notin> set r \<or> CHR '']'' \<notin> set r \<longrightarrow>
      parseQuizzes parse r = Inl (Error ''AI response did not contain a JSON array.''))"
  by (simp add: parseQuizzes_def extractJsonString_embedded extractJsonString_none
        extractJsonString_slice)

text \<open>
  An array between two pieces of prose, a response without brackets, and an array in the
  middle of a sentence.
\<close>

theorem parseQuizzes_embedded_witness:
  "parseQuizzes parseTable (''Here is the quiz: '' @ sampleQuizText @ '' Enjoy!'') = Inr (JArray [sampleQuiz])
   \<and> parseQuizzes parseTable ''Sorry, no quiz.'' = Inl (Error ''AI response did not contain a JSON array.'')
   \<and> parseQuizzes parseTable ''I made [1] for you'' = Inr (JArray [JNum (Finite 1)])"
  using parseQuizzes_embedded [of "''I made [1] for you''" parseTable "''Here is the quiz: ''" "'' Enjoy!''"
      "butlast (tl sampleQuizText)"]
    parseQuizzes_embedded [of "''Sorry, no quiz.''" parseTable "''Here is the quiz: ''" "'' Enjoy!''"
      "butlast (tl sampleQuizText)"]
  by (simp add: parseTable_simps String_indexOf_def String_lastIndexOf_def)

text \<open>
  The claim as worded, for arbitrary surrounding prose, fails: the response
  \<open>See [x]: [1]\<close> contains the one well-formed array \<open>[1]\<close>, but the slice starts at
  the bracket of the prose and the parse fails.
\<close>

theorem parseQuizzes_prose_counterexample:
  "parseTable ''[1]'' = Inr (JArray [JNum (Finite 1)]) \<and>
   parseQuizzes parseTable (''See [x]: '' @ ''[1]'' @ '''') = Inl (Error ''Unexpected token'')"
  by (simp add: parseTable_simps parseQuizzes_def extractJsonString_def String_indexOf_def
        String_lastIndexOf_def substring_def)


subsection \<open>The shuffle\<close>

lemma sortRandom_mset: "mset (sortRandom p ys) = mset ys"
proof (cases "sort p = [0..<length ys]")
  case True
  have "mset p = mset (sort p)" by simp
  also have "\<dots> = mset [0..<length ys]" using True by simp
  finally have "mset (map (\<lambda>i. ys ! i) p) = mset (map (\<lambda>i. ys ! i) [0..<length ys])"
    by (metis mset_map)
  then show ?thesis using True by (simp add: sortRandom_def map_nth)
next
  case False
  then show ?thesis by (simp add: sortRandom_def)
qed

lemma sortRandom_set: "set (sortRandom p ys) = set ys"
  using sortRandom_mset [of p ys] by (rule mset_eq_setD)

lemma sortRandom_length: "length (sortRandom p ys) = length ys"
  using sortRandom_mset [of p ys] by (rule mset_eq_length)

lemma slots_options:
  "mset (map snd (sortRandom p (zip [0..<length xs] xs))) = mset xs"
proof -
  let ?Z = "zip [0..<length xs] xs"
  have "mset (map snd (sortRandom p ?Z)) = image_mset snd (mset (sortRandom p ?Z))"
    by (rule mset_map)
  also have "\<dots> = image_mset snd (mset ?Z)"
    by (simp only: sortRandom_mset)
  also have "\<dots> = mset (map snd ?Z)"
    by (rule mset_map [symmetric])
  also have "map snd ?Z = xs"
    by (simp add: map_snd_zip)
  finally show ?thesis .
qed

lemma slot_value:
  assumes "slot \<in> set (sortRandom p (zip [0..<length xs] xs))"
  shows "fst slot < length xs \<and> snd slot = xs ! fst slot"
proof -
  from assms have "slot \<in> set (zip [0..<length xs] xs)" by (simp only: sortRandom_set)
  then obtain i where "i < length xs" and "slot = (i, xs ! i)"
    by (auto simp: set_zip)
  then show ?thesis by simp
qed

lemma slot_present:
  assumes "k < length xs"
  shows "(k, xs ! k) \<in> set (sortRandom p (zip [0..<length xs] xs))"
proof -
  have "(k, xs ! k) \<in> set (zip [0..<length xs] xs)"
    using assms by (auto simp: set_zip intro!: exI [of _ k])
  then show ?thesis by (simp only: sortRandom_set)
qed

lemma takeWhile_stops:
  "\<exists>x\<in>set ys. P x \<Longrightarrow> length (takeWhile (\<lambda>x. \<not> P x) ys) < length ys"
  by (induction ys) auto

lemma Array_indexOf_element:
  fixes p :: "nat list" and xs :: "json list"
  assumes "k < length xs"
  defines "slots \<equiv> sortRandom p (zip [0..<length xs] xs)"
  shows "\<exists>j. Array_indexOf xs slots (Element k) = int j \<and> j < length slots
            \<and> snd (slots ! j) = xs ! k"
proof -
  let ?P = "\<lambda>slot. strictEquals xs slot (Element k)"
  have "?P (k, xs ! k)" by (simp add: strictEquals_def)
  moreover have "(k, xs ! k) \<in> set slots"
    unfolding slots_def using assms(1) by (rule slot_present)
  ultimately have ex: "\<exists>slot\<in>set slots. ?P slot" by blast
  let ?j = "length (takeWhile (\<lambda>slot. \<not> ?P slot) slots)"
  have lt: "?j < length slots"
    using ex by (rule takeWhile_stops)
  then have "\<not> \<not> ?P (slots ! ?j)" by (rule nth_length_takeWhile)
  then have P: "?P (slots ! ?j)" by simp
  have mem: "slots ! ?j \<in> set (sortRandom p (zip [0..<length xs] xs))"
    using lt unfolding slots_def by simp
  have "snd (slots ! ?j) = xs ! k"
    using P slot_value [OF mem] by (auto simp: strictEquals_def split: if_splits)
  moreover have "Array_indexOf xs slots (Element k) = int ?j"
    using ex by (simp add: Array_indexOf_def list_ex_iff)
  ultimately show ?thesis using lt by blast
qed


lemma toPropertyKey_index: "toPropertyKey (JNum (Finite (real k))) = KIndex k"
  by simp

text \<open>
  C3. For a quiz item whose \<open>options\<close> is an array (of four strings, or of anything
  else) and whose \<open>correctAnswer\<close> is an index into it, the shuffle step leaves an
  \<open>options\<close> array that is a permutation of the original one, and a \<open>correctAnswer\<close>
  that is an index of the new array at which the originally correct option stands.
\<close>

theorem shuffleQuiz_keeps_answer:
  assumes "map_of kvs ''options'' = Some (JArray xs)"
    and "map_of kvs ''correctAnswer'' = Some (JNum (Finite (real k)))"
    and "k < length xs"
  shows "\<exists>ys j. shuffleQuiz p (JObject kvs)
             = Inr (JObject (AList.update ''correctAnswer'' (JNum (Finite (real j)))
                      (AList.update ''options'' (JArray ys) kvs)))
           \<and> mset ys = mset xs \<and> j < length ys \<and> ys ! j = xs ! k"
proof -
  let ?slots = "sortRandom p (zip [0..<length xs] xs)"
  obtain j where j: "Array_indexOf xs ?slots (Element k) = int j"
      and lt: "j < length ?slots" and v: "snd (?slots ! j) = xs ! k"
    using Array_indexOf_element [OF assms(3), of p] by blast
  have "shuffleQuiz p (JObject kvs)
          = Inr (JObject (AList.update ''correctAnswer'' (JNum (Finite (real j)))
                   (AList.update ''options'' (JArray (map snd ?slots)) kvs)))"
    using assms j by (simp add: getProperty_def Let_def)
  moreover have "mset (map snd ?slots) = mset xs" by (rule slots_options)
  moreover have "j < length (map snd ?slots)" using lt by simp
  moreover have "map snd ?slots ! j = xs ! k" using lt v by simp
  ultimately show ?thesis by blast
qed

text \<open>The sample item, with the order \<open>c, a, d, b\<close> coming out of the sort.\<close>

theorem shuffleQuiz_keeps_answer_witness:
  "shuffleQuiz [2, 0, 3, 1] sampleQuiz
     = Inr (JObject [(''question'', JString ''q''),
              (''options'', JArray [JString ''c'', JString ''a'', JString ''d'', JString ''b'']),
              (''correctAnswer'', JNum (Finite 3)),
              (''explanation'', JString ''e'')])
   \<and> (\<exists>ys j. shuffleQuiz [2, 0, 3, 1] sampleQuiz
             = Inr (JObject [(''question'', JString ''q''), (''options'', JArray ys),
                      (''correctAnswer'', JNum (Finite (real j))), (''explanation'', JString ''e'')])
           \<and> mset ys = mset [JString ''a'', JString ''b'', JString ''c'', JString ''d'']
           \<and> j < length ys \<and> ys ! j = JString ''b'')"
proof -
  let ?kvs = "[(''question'', JString ''q''),
              (''options'', JArray [JString ''a'', JString ''b'', JString ''c'', JString ''d'']),
              (''correctAnswer'', JNum (Finite 1)),
              (''explanation'', JString ''e'')]"
  have "\<exists>ys j. shuffleQuiz [2, 0, 3, 1] (JObject ?kvs)
             = Inr (JObject (AList.update ''correctAnswer'' (JNum (Finite (real j)))
                      (AList.update ''options'' (JArray ys) ?kvs)))
           \<and> mset ys = mset [JString ''a'', JString ''b'', JString ''c'', JString ''d'']
           \<and> j < length ys \<and> ys ! j = [JString ''a'', JString ''b'', JString ''c'', JString ''d''] ! 1"
    by (rule shuffleQuiz_keeps_answer [where k = 1]) simp_all
  then have ex: "\<exists>ys j. shuffleQuiz [2, 0, 3, 1] sampleQuiz
             = Inr (JObject [(''question'', JString ''q''), (''options'', JArray ys),
                      (''correctAnswer'', JNum (Finite (real j))), (''explanation'', JString ''e'')])
           \<and> mset ys = mset [JString ''a'', JString ''b'', JString ''c'', JString ''d'']
           \<and> j < length ys \<and> ys ! j = JString ''b''"
    by (simp add: sampleQuiz_def)
  have "shuffleQuiz [2, 0, 3, 1] sampleQuiz
     = Inr (JObject [(''question'', JString ''q''),
              (''options'', JArray [JString ''c'', JString ''a'', JString ''d'', JString ''b'']),
              (''correctAnswer'', JNum (Finite 3)),
              (''explanation'', JString ''e'')])"
    by (simp add: sampleQuiz_def sortRandom_def getProperty_def Array_indexOf_def
          strictEquals_def upt_rec Let_def)
  with ex show ?thesis by blast
qed


subsection \<open>The retry loop and the absence of validation\<close>

lemma shuffleQuiz_accepts:
  "shuffleAccepts q \<Longrightarrow> \<exists>q'. shuffleQuiz p q = Inr q'"
  by (cases q) (auto simp: Let_def split: option.splits json.splits if_splits)

lemma shuffleQuiz_lacksField:
  "shuffleAccepts q \<Longrightarrow> lacksField q \<Longrightarrow> shuffleQuiz p q = Inr q"
  by (cases q) (auto split: option.splits)

lemma forEachQuiz_accepts:
  "\<forall>q\<in>set items. shuffleAccepts q \<Longrightarrow>
     \<exists>items'. forEachQuiz rnd i items = Inr items' \<and> length items' = length items \<and>
       (\<forall>n<length items. lacksField (items ! n) \<longrightarrow> items' ! n = items ! n)"
proof (induction items arbitrary: i)
  case Nil
  then show ?case by simp
next
  case (Cons q qs)
  from Cons.prems obtain q' where q': "shuffleQuiz (rnd i) q = Inr q'"
    using shuffleQuiz_accepts by (metis list.set_intros(1))
  have same: "lacksField q \<Longrightarrow> q' = q"
    using Cons.prems q' shuffleQuiz_lacksField [of q "rnd i"] by simp
  from Cons.prems have "\<forall>q\<in>set qs. shuffleAccepts q" by simp
  from Cons.IH [OF this, of "Suc i"] obtain qs' where
    qs': "forEachQuiz rnd (Suc i) qs = Inr qs'" and len: "length qs' = length qs"
    and keep: "\<forall>n<length qs. lacksField (qs ! n) \<longrightarrow> qs' ! n = qs ! n"
    by blast
  have "forEachQuiz rnd i (q # qs) = Inr (q' # qs')" using q' qs' by simp
  moreover have "length (q' # qs') = length (q # qs)" using len by simp
  moreover have "\<forall>n<length (q # qs). lacksField ((q # qs) ! n) \<longrightarrow> (q' # qs') ! n = (q # qs) ! n"
  proof (intro allI impI)
    fix n assume "n < length (q # qs)" and "lacksField ((q # qs) ! n)"
    then show "(q' # qs') ! n = (q # qs) ! n"
      using same keep by (cases n) auto
  qed
  ultimately show ?case by blast
qed

lemma generateQuizzes_first_ok:
  assumes "ai [(''user'', quizPrompt transcript)] = Inr response"
    and "readQuizzes parse (rnd 0) response = Inr q"
  shows "generateQuizzes ai parse rnd transcript
           = ([[(''user'', quizPrompt transcript)]], Inr (Some q))"
  using assms by (simp add: generateQuizzes_def generateQuizzesFrom.simps [of _ _ _ _ 0])

lemma generateQuizzes_first_fails:
  assumes "ai [(''user'', quizPrompt transcript)] = Inr response"
    and "readQuizzes parse (rnd 0) response = Inl e"
  shows "generateQuizzes ai parse rnd transcript
           = ([(''user'', quizPrompt transcript)]
                # fst (generateQuizzesFrom ai parse rnd transcript (Suc 0) response),
              snd (generateQuizzesFrom ai parse rnd transcript (Suc 0) response))"
  using assms
  by (simp add: generateQuizzes_def generateQuizzesFrom.simps [of _ _ _ _ 0] split: prod.splits)

lemma generateQuizzes_first_throws:
  assumes "ai [(''user'', quizPrompt transcript)] = Inl e"
  shows "generateQuizzes ai parse rnd transcript
           = ([(''user'', quizPrompt transcript)]
                # fst (generateQuizzesFrom ai parse rnd transcript (Suc 0) []),
              snd (generateQuizzesFrom ai parse rnd transcript (Suc 0) []))"
  using assms
  by (simp add: generateQuizzes_def generateQuizzesFrom.simps [of _ _ _ _ 0] split: prod.splits)

lemma second_attempt:
  "generateQuizzesFrom ai parse rnd transcript (Suc 0) lastResponse
     = ([[(''user'', correctivePrompt lastResponse)]],
        (case ai [(''user'', correctivePrompt lastResponse)] of
           Inl e \<Rightarrow> Inl (QuizGenerationError lastResponse)
         | Inr response \<Rightarrow>
             (case readQuizzes parse (rnd (Suc 0)) response of
                Inr q \<Rightarrow> Inr (Some q)
              | Inl e \<Rightarrow> Inl (QuizGenerationError response))))"
  by (subst generateQuizzesFrom.simps) (simp split: sum.splits)

lemma generateQuizzes_calls_le: "length (fst (generateQuizzes ai parse rnd transcript)) \<le> 2"
proof (cases "ai [(''user'', quizPrompt transcript)]")
  case (Inl e)
  then show ?thesis by (simp add: generateQuizzes_first_throws second_attempt)
next
  case (Inr response)
  then show ?thesis
    by (cases "readQuizzes parse (rnd 0) response")
       (simp_all add: generateQuizzes_first_ok generateQuizzes_first_fails second_attempt)
qed

lemma generateQuizzes_returns_value:
  "snd (generateQuizzes ai parse rnd transcript) \<noteq> Inr None"
proof (cases "ai [(''user'', quizPrompt transcript)]")
  case (Inl e)
  then show ?thesis
    by (simp add: generateQuizzes_first_throws second_attempt split: sum.splits)
next
  case (Inr response)
  then show ?thesis
    by (cases "readQuizzes parse (rnd 0) response")
       (simp_all add: generateQuizzes_first_ok generateQuizzes_first_fails second_attempt
          split: sum.splits)
qed


lemma parse_fails_read_fails:
  "parseQuizzes parse response = Inl e \<Longrightarrow> readQuizzes parse order response = Inl e"
  by (simp add: readQuizzes_def)

text \<open>
  C2, as amended. Quiz generation calls the AI at most twice. If the first response
  fails bracket extraction or JSON parsing, exactly one corrective round is issued, which
  sends the first response back; if the response of that round fails to parse as well,
  generation fails with the quiz generation error, whose message ends with that last
  response, and there are two calls in all; if it can be read, generation succeeds with
  it. If the first response parses and the shuffle step raises no error on it, there is
  one call.
\<close>

theorem generateQuizzes_retry:
  "length (fst (generateQuizzes ai parse rnd transcript)) \<le> 2 \<and>
   (ai [(''user'', quizPrompt transcript)] = Inr r0 \<and> parseQuizzes parse r0 = Inl e0 \<longrightarrow>
      fst (generateQuizzes ai parse rnd transcript)
        = [[(''user'', quizPrompt transcript)], [(''user'', correctivePrompt r0)]] \<and>
      (ai [(''user'', correctivePrompt r0)] = Inr r1 \<and> parseQuizzes parse r1 = Inl e1 \<longrightarrow>
         snd (generateQuizzes ai parse rnd transcript) = Inl (QuizGenerationError r1) \<and>
         suffix r1 (message (QuizGenerationError r1))) \<and>
      (ai [(''user'', correctivePrompt r0)] = Inr r1 \<and> readQuizzes parse (rnd 1) r1 = Inr q1 \<longrightarrow>
         snd (generateQuizzes ai parse rnd transcript) = Inr (Some q1))) \<and>
   (ai [(''user'', quizPrompt transcript)] = Inr r0 \<and> readQuizzes parse (rnd 0) r0 = Inr q0 \<longrightarrow>
      generateQuizzes ai parse rnd transcript
        = ([[(''user'', quizPrompt transcript)]], Inr (Some q0)))"
proof (intro conjI impI)
  show "length (fst (generateQuizzes ai parse rnd transcript)) \<le> 2"
    by (rule generateQuizzes_calls_le)
next
  assume "ai [(''user'', quizPrompt transcript)] = Inr r0 \<and> parseQuizzes parse r0 = Inl e0"
  then show "fst (generateQuizzes ai parse rnd transcript)
        = [[(''user'', quizPrompt transcript)], [(''user'', correctivePrompt r0)]]"
    by (simp add: generateQuizzes_first_fails [where e = e0] parse_fails_read_fails second_attempt)
next
  assume a: "ai [(''user'', quizPrompt transcript)] = Inr r0 \<and> parseQuizzes parse r0 = Inl e0"
    and b: "ai [(''user'', correctivePrompt r0)] = Inr r1 \<and> parseQuizzes parse r1 = Inl e1"
  then show "snd (generateQuizzes ai parse rnd transcript) = Inl (QuizGenerationError r1)"
    by (simp add: generateQuizzes_first_fails [where e = e0] parse_fails_read_fails second_attempt)
  show "suffix r1 (message (QuizGenerationError r1))"
    unfolding QuizGenerationError_def error.sel by (rule suffixI) (rule refl)
next
  assume a: "ai [(''user'', quizPrompt transcript)] = Inr r0 \<and> parseQuizzes parse r0 = Inl e0"
    and b: "ai [(''user'', correctivePrompt r0)] = Inr r1 \<and> readQuizzes parse (rnd 1) r1 = Inr q1"
  then show "snd (generateQuizzes ai parse rnd transcript) = Inr (Some q1)"
    by (simp add: generateQuizzes_first_fails [where e = e0] parse_fails_read_fails second_attempt)
next
  assume "ai [(''user'', quizPrompt transcript)] = Inr r0 \<and> readQuizzes parse (rnd 0) r0 = Inr q0"
  then show "generateQuizzes ai parse rnd transcript
        = ([[(''user'', quizPrompt transcript)]], Inr (Some q0))"
    by (simp add: generateQuizzes_first_ok)
qed


lemmas readQuizzes_eval =
  readQuizzes_def parseQuizzes_def shuffleQuizzes_def extractJsonString_def
  String_indexOf_def String_lastIndexOf_def substring_def parseTable_simps

text \<open>
  Two responses without brackets; one such response followed by the sample quiz; the
  sample quiz at once.
\<close>

theorem generateQuizzes_retry_witness:
  "generateQuizzes (\<lambda>m. Inr ''Sorry, no quiz.'') parseTable (\<lambda>i j. [2, 0, 3, 1]) ''t''
     = ([[(''user'', quizPrompt ''t'')], [(''user'', correctivePrompt ''Sorry, no quiz.'')]],
        Inl (QuizGenerationError ''Sorry, no quiz.''))
   \<and> generateQuizzes (\<lambda>m. if m = [(''user'', quizPrompt ''t'')] then Inr ''Sorry, no quiz.''
                           else Inr sampleQuizText) parseTable (\<lambda>i j. [2, 0, 3, 1]) ''t''
     = ([[(''user'', quizPrompt ''t'')], [(''user'', correctivePrompt ''Sorry, no quiz.'')]],
        Inr (Some (JArray [JObject [(''question'', JString ''q''),
              (''options'', JArray [JString ''c'', JString ''a'', JString ''d'', JString ''b'']),
              (''correctAnswer'', JNum (Finite 3)),
              (''explanation'', JString ''e'')]])))
   \<and> generateQuizzes (\<lambda>m. Inr sampleQuizText) parseTable (\<lambda>i j. [2, 0, 3, 1]) ''t''
     = ([[(''user'', quizPrompt ''t'')]],
        Inr (Some (JArray [JObject [(''question'', JString ''q''),
              (''options'', JArray [JString ''c'', JString ''a'', JString ''d'', JString ''b'']),
              (''correctAnswer'', JNum (Finite 3)),
              (''explanation'', JString ''e'')]])))"
proof -
  let ?rnd = "\<lambda>i j. [2, 0, 3, 1] :: nat list"
  let ?none = "''Sorry, no quiz.''"
  let ?shuffled = "JArray [JObject [(''question'', JString ''q''),
              (''options'', JArray [JString ''c'', JString ''a'', JString ''d'', JString ''b'']),
              (''correctAnswer'', JNum (Finite 3)),
              (''explanation'', JString ''e'')]]"
  let ?ai2 = "\<lambda>m. if m = [(''user'', quizPrompt ''t'')] then Inr ?none else Inr sampleQuizText"
  have none: "parseQuizzes parseTable ?none = Inl (Error ''AI response did not contain a JSON array.'')"
    by (simp add: readQuizzes_eval)
  have good: "readQuizzes parseTable (\<lambda>j. [2, 0, 3, 1]) sampleQuizText = Inr ?shuffled"
    by (simp add: readQuizzes_eval sampleQuiz_def sortRandom_def getProperty_def
          Array_indexOf_def strictEquals_def upt_rec Let_def)
  have ne: "[(''user'', correctivePrompt ?none)] \<noteq> [(''user'', quizPrompt ''t'')]"
    by (simp add: correctivePrompt_def quizPrompt_def)
  note a = generateQuizzes_retry [of "\<lambda>m. Inr ?none" parseTable ?rnd "''t''" ?none
      "Error ''AI response did not contain a JSON array.''" ?none
      "Error ''AI response did not contain a JSON array.''"]
  note b = generateQuizzes_retry [of ?ai2 parseTable ?rnd "''t''" ?none
      "Error ''AI response did not contain a JSON array.''" sampleQuizText _ ?shuffled]
  note c = generateQuizzes_retry [of "\<lambda>m. Inr sampleQuizText" parseTable ?rnd "''t''"
      sampleQuizText _ _ _ _ ?shuffled]
  have "generateQuizzes (\<lambda>m. Inr ?none) parseTable ?rnd ''t''
     = ([[(''user'', quizPrompt ''t'')], [(''user'', correctivePrompt ?none)]],
        Inl (QuizGenerationError ?none))"
    using a none by (simp add: prod_eq_iff)
  moreover have "generateQuizzes ?ai2 parseTable ?rnd ''t''
     = ([[(''user'', quizPrompt ''t'')], [(''user'', correctivePrompt ?none)]],
        Inr (Some ?shuffled))"
    using b none good ne by (simp add: prod_eq_iff)
  moreover have "generateQuizzes (\<lambda>m. Inr sampleQuizText) parseTable ?rnd ''t''
     = ([[(''user'', quizPrompt ''t'')]], Inr (Some ?shuffled))"
    using c good by simp
  ultimately show ?thesis by simp
qed

text \<open>
  The claim as worded, one call whenever the first response parses, fails: the response
  \<open>[null]\<close> parses, the callback throws on the \<open>null\<close> item inside the \<open>try\<close>, and
  the corrective round is issued.
\<close>

theorem generateQuizzes_parsed_retry_counterexample:
  "parseQuizzes parseTable ''[null]'' = Inr (JArray [JNull]) \<and>
   fst (generateQuizzes (\<lambda>m. Inr ''[null]'') parseTable (\<lambda>i j. []) ''t'')
     = [[(''user'', quizPrompt ''t'')], [(''user'', correctivePrompt ''[null]'')]]"
proof -
  have p: "parseQuizzes parseTable ''[null]'' = Inr (JArray [JNull])"
    by (simp add: readQuizzes_eval)
  then have r: "readQuizzes parseTable (\<lambda>j. []) ''[null]''
                  = Inl (Error ''Cannot read properties of null (reading 'options')'')"
    by (simp add: readQuizzes_def shuffleQuizzes_def)
  show ?thesis
    using p r by (simp add: generateQuizzes_first_fails second_attempt)
qed

text \<open>
  C9, as amended. When the first response parses to an array and the callback raises no
  error on any item (\<open>shuffleAccepts\<close>), generation succeeds after one call with an
  array of the same length, whatever that length is, however many options an item has
  and whatever its \<open>correctAnswer\<close> is; the items that lack an \<open>options\<close> or a
  \<open>correctAnswer\<close> field are returned as they were.
\<close>

theorem generateQuizzes_no_validation:
  assumes "ai [(''user'', quizPrompt transcript)] = Inr response"
    and "parseQuizzes parse response = Inr (JArray items)"
    and "\<forall>q\<in>set items. shuffleAccepts q"
  shows "\<exists>items'. generateQuizzes ai parse rnd transcript
                    = ([[(''user'', quizPrompt transcript)]], Inr (Some (JArray items')))
           \<and> length items' = length items
           \<and> (\<forall>n<length items. lacksField (items ! n) \<longrightarrow> items' ! n = items ! n)"
proof -
  obtain items' where run: "forEachQuiz (rnd 0) 0 items = Inr items'"
      and len: "length items' = length items"
      and keep: "\<forall>n<length items. lacksField (items ! n) \<longrightarrow> items' ! n = items ! n"
    using forEachQuiz_accepts [OF assms(3)] by blast
  have "readQuizzes parse (rnd 0) response = Inr (JArray items')"
    using assms(2) run by (simp add: readQuizzes_def shuffleQuizzes_def)
  with assms(1) have "generateQuizzes ai parse rnd transcript
                    = ([[(''user'', quizPrompt transcript)]], Inr (Some (JArray items')))"
    by (rule generateQuizzes_first_ok)
  with len keep show ?thesis by blast
qed

text \<open>
  An array of two items, the first with two options and the \<open>correctAnswer\<close> 7, the
  second with a question only; and the empty array.
\<close>

theorem generateQuizzes_no_validation_witness:
  "generateQuizzes (\<lambda>m. Inr looseQuizText) parseTable (\<lambda>i j. [1, 0]) ''t''
     = ([[(''user'', quizPrompt ''t'')]],
        Inr (Some (JArray
          [JObject [(''options'', JArray [JString ''b'', JString ''a'']),
                    (''correctAnswer'', JNum (Finite (- 1)))],
           JObject [(''question'', JString ''q'')]])))
   \<and> generateQuizzes (\<lambda>m. Inr ''[]'') parseTable (\<lambda>i j. [1, 0]) ''t''
     = ([[(''user'', quizPrompt ''t'')]], Inr (Some (JArray [])))"
proof -
  let ?rnd = "\<lambda>i j. [1, 0] :: nat list"
  have p1: "parseQuizzes parseTable looseQuizText = Inr (JArray looseQuizzes)"
    by (simp add: readQuizzes_eval)
  have a1: "\<forall>q\<in>set looseQuizzes. shuffleAccepts q"
    by (simp add: looseQuizzes_def)
  have p2: "parseQuizzes parseTable ''[]'' = Inr (JArray [])"
    by (simp add: readQuizzes_eval)
  from generateQuizzes_no_validation [of "\<lambda>m. Inr looseQuizText" "''t''" looseQuizText
      parseTable looseQuizzes ?rnd, OF refl p1 a1]
  obtain items' where
    g1: "generateQuizzes (\<lambda>m. Inr looseQuizText) parseTable ?rnd ''t''
           = ([[(''user'', quizPrompt ''t'')]], Inr (Some (JArray items')))"
    and "length items' = length looseQuizzes"
    and "\<forall>n<length looseQuizzes. lacksField (looseQuizzes ! n) \<longrightarrow> items' ! n = looseQuizzes ! n"
    by blast
  from generateQuizzes_no_validation [of "\<lambda>m. Inr ''[]''" "''t''" "''[]''"
      parseTable "[]" ?rnd, OF refl p2]
  have g2: "generateQuizzes (\<lambda>m. Inr ''[]'') parseTable ?rnd ''t''
           = ([[(''user'', quizPrompt ''t'')]], Inr (Some (JArray [])))"
    by simp
  have "readQuizzes parseTable (\<lambda>j. [1, 0]) looseQuizText
          = Inr (JArray
          [JObject [(''options'', JArray [JString ''b'', JString ''a'']),
                    (''correctAnswer'', JNum (Finite (- 1)))],
           JObject [(''question'', JString ''q'')]])"
    using p1 by (simp add: readQuizzes_def shuffleQuizzes_def looseQuizzes_def sortRandom_def
        getProperty_def Array_indexOf_def strictEquals_def upt_rec Let_def)
  then have "generateQuizzes (\<lambda>m. Inr looseQuizText) parseTable ?rnd ''t''
     = ([[(''user'', quizPrompt ''t'')]],
        Inr (Some (JArray
          [JObject [(''options'', JArray [JString ''b'', JString ''a'']),
                    (''correctAnswer'', JNum (Finite (- 1)))],
           JObject [(''question'', JString ''q'')]])))"
    using g1 by (simp add: generateQuizzes_first_ok)
  with g2 show ?thesis by simp
qed

text \<open>
  The claim as worded, that any JSON array is accepted, fails: an item whose
  \<open>options\<close> is an object keyed by letter parses, and the attempt fails on it, twice.
\<close>

theorem generateQuizzes_rejects_array_counterexample:
  "parseQuizzes parseTable keyedOptionsText = Inr (JArray keyedOptions) \<and>
   generateQuizzes (\<lambda>m. Inr keyedOptionsText) parseTable (\<lambda>i j. []) ''t''
     = ([[(''user'', quizPrompt ''t'')], [(''user'', correctivePrompt keyedOptionsText)]],
        Inl (QuizGenerationError keyedOptionsText))"
proof -
  have p: "parseQuizzes parseTable keyedOptionsText = Inr (JArray keyedOptions)"
    by (simp add: readQuizzes_eval)
  then have r: "readQuizzes parseTable (\<lambda>j. []) keyedOptionsText
                  = Inl (Error ''quiz.options.sort is not a function'')"
    by (simp add: readQuizzes_def shuffleQuizzes_def keyedOptions_def)
  show ?thesis
    using p r by (simp add: generateQuizzes_first_fails second_attempt)
qed

subsection \<open>Steps of the orchestrator\<close>

lemma andThen_update: "andThen (findByIdAndUpdate i doc) f w = f () (persist i doc w)"
  by (simp add: andThen_def findByIdAndUpdate_def)

lemma andThen_await_Inr: "r = Inr x \<Longrightarrow> andThen (await k r) f w = f x (logged k w)"
  by (simp add: andThen_def await_def)

lemma andThen_await_Inl: "r = Inl e \<Longrightarrow> andThen (await k r) f w = (Inl e, logged k w)"
  by (simp add: andThen_def await_def)

lemma andThen_await:
  "andThen (await k r) f w
     = (case r of Inl e \<Rightarrow> (Inl e, logged k w) | Inr x \<Rightarrow> f x (logged k w))"
  by (simp add: andThen_def await_def split: sum.splits)

lemma await_eq: "await k r w = (r, logged k w)"
  by (simp add: await_def)

lemma trace_persist: "trace (persist i doc w) = trace w @ [Update i doc]"
  by (simp add: persist_def)

lemma trace_logged: "trace (logged k w) = trace w @ [Call k]"
  by (simp add: logged_def)

lemmas trace_simps = trace_persist trace_logged

lemma db_logged: "db (logged k w) = db w"
  by (simp add: logged_def)

lemma db_persist:
  "db w i = Some l \<Longrightarrow> db (persist i doc w) = (db w)(i \<mapsto> applyUpdate doc l)"
  by (simp add: persist_def)

lemma db_persist_id:
  "db w i = Some l \<Longrightarrow> db (persist i doc w) i = Some (applyUpdate doc l)"
  by (simp add: persist_def)

lemma since_append: "trace w' = trace w @ es \<Longrightarrow> since w w' = es"
  by (simp add: since_def)

lemma tryCatch_Inr: "m w = (Inr x, w') \<Longrightarrow> tryCatch m h w = (Inr x, w')"
  by (simp add: tryCatch_def)

lemma tryCatch_Inl: "m w = (Inl e, w') \<Longrightarrow> tryCatch m h w = h e w'"
  by (simp add: tryCatch_def)

lemma recordFailure_eq:
  "recordFailure i err w
     = (Inr (), persist i [ProcessingError (Some (message err)), ProcessingStage ''failed''] w)"
  by (simp add: recordFailure_def findByIdAndUpdate_def)

lemma processLecture_unfold:
  "processLecture E i path ttl w
     = (case processLectureBody E i path w of
          (Inl e, w') \<Rightarrow> (Inr (), persist i [ProcessingError (Some (message e)), ProcessingStage ''failed''] w')
        | (Inr x, w') \<Rightarrow> (Inr x, w'))"
  by (simp add: processLecture_def tryCatch_def recordFailure_eq split: prod.splits sum.splits)

lemma processLecture_returns: "fst (processLecture E i path ttl w) = Inr ()"
  by (simp add: processLecture_unfold split: prod.splits sum.splits)

lemma processYouTubeLecture_unfold:
  "processYouTubeLecture E i link ttl w
     = (case downloadYouTubeVideo E link i of
          Inl e \<Rightarrow> (Inr (), persist i [ProcessingError (Some (message e)), ProcessingStage ''failed'']
                              (logged DownloadYouTubeVideo
                                 (persist i [ProcessingStage ''downloading''] w)))
        | Inr path \<Rightarrow> processLecture E i path ttl (afterDownload i path w))"
proof (cases "downloadYouTubeVideo E link i")
  case (Inl e)
  then show ?thesis
    by (simp add: processYouTubeLecture_def tryCatch_def andThen_update andThen_await
          recordFailure_eq)
next
  case (Inr path)
  have "fst (processLecture E i path ttl (afterDownload i path w)) = Inr ()"
    by (rule processLecture_returns)
  then obtain v where "processLecture E i path ttl (afterDownload i path w) = (Inr (), v)"
    by (cases "processLecture E i path ttl (afterDownload i path w)") auto
  with Inr show ?thesis
    by (simp add: processYouTubeLecture_def tryCatch_def andThen_update andThen_await
          afterDownload_def)
qed

text \<open>
  The state after a run of the \<open>try\<close> block in which every stage succeeds.
\<close>

lemma body_success:
  assumes "extractAudio E path = Inr audioPath"
    and "transcribeWithWhisper E audioPath = Inr raw"
    and "formatTranscript E raw = Inr t"
    and "remark_html E t = Inr th"
    and "generateSummary E t = Inr s"
    and "remark_html E s = Inr sh"
    and "generateQuizzesIn E t = Inr qz"
    and "snd (extractFrames E path lectureId) = Inr sl"
    and "existsSync E audioPath \<longrightarrow> unlinkSync E audioPath = Inr ()"
  shows "processLectureBody E lectureId path w
           = (Inr (),
              (if existsSync E audioPath then logged UnlinkSync else id)
              (persist lectureId [SummaryMd s, SummaryHtml sh, Quizzes qz, Slides sl,
                                  ProcessingStage ''complete'', ProcessingError None]
              (logged ExtractFrames (logged GenerateQuizzes (logged Remark (logged GenerateSummary
              (persist lectureId [ProcessingStage ''summarizing'', TranscriptMd t, TranscriptHtml th]
              (logged Remark (logged FormatTranscript (logged TranscribeWithWhisper
              (persist lectureId [ProcessingStage ''transcribing'']
              (logged ExtractAudio
              (persist lectureId [ProcessingStage ''extracting_audio''] w)))))))))))))"
  unfolding processLectureBody_def
  using assms
  by (simp add: andThen_update andThen_await_Inr await_def skip_def)

subsection \<open>The sample environments\<close>

lemma sample_formatTranscript: "formatTranscript sampleEnv ''Hello world.'' = Inr ''Hello world.''"
  by (simp add: formatTranscript_def callAI_def chatRequest_def sampleEnv_def)

lemma sample_generateSummary: "generateSummary sampleEnv ''Hello world.'' = Inr ''Hello world.''"
  by (simp add: generateSummary_def callAI_def chatRequest_def sampleEnv_def)

lemma sample_generateQuizzes: "generateQuizzesIn sampleEnv ''Hello world.''
   = Inr (Some (JArray [JObject [(''question'', JString ''q''),
              (''options'', JArray [JString ''c'', JString ''a'', JString ''d'', JString ''b'']),
              (''correctAnswer'', JNum (Finite 3)),
              (''explanation'', JString ''e'')]]))"
proof -
  have "readQuizzes parseTable (\<lambda>j. [2, 0, 3, 1]) sampleQuizText
     = Inr (JArray [JObject [(''question'', JString ''q''),
              (''options'', JArray [JString ''c'', JString ''a'', JString ''d'', JString ''b'']),
              (''correctAnswer'', JNum (Finite 3)),
              (''explanation'', JString ''e'')]])"
    by (simp add: readQuizzes_eval sampleQuiz_def sortRandom_def getProperty_def
          Array_indexOf_def strictEquals_def upt_rec Let_def)
  moreover have "snd (callAI (OPENROUTER_API_KEY sampleEnv) (OPENROUTER_MODEL sampleEnv)
             (axios_post sampleEnv) [(''user'', quizPrompt ''Hello world.'')] 1500) = Inr sampleQuizText"
    by (simp add: callAI_def chatRequest_def sampleEnv_def quizPrompt_def)
  ultimately show ?thesis
    unfolding generateQuizzesIn_def
    by (subst generateQuizzes_first_ok) (simp_all add: sampleEnv_def)
qed

lemma sample_extractFrames:
  "snd (extractFrames sampleEnv p ''L1'')
   = Inr [\<lparr>timestamp = 22, image_ref = ''/frames_L1/slide_001.png''\<rparr>,
          \<lparr>timestamp = 45, image_ref = ''/frames_L1/slide_002.png''\<rparr>,
          \<lparr>timestamp = 67, image_ref = ''/frames_L1/slide_003.png''\<rparr>,
          \<lparr>timestamp = 90, image_ref = ''/frames_L1/slide_004.png''\<rparr>]"
  by (simp add: extractFrames_def sampleEnv_def frameCount_def endsWith_def suffix_to_prefix
        less_char_def less_eq_char_def enumerate_eq_zip upt_rec)

lemma sample_body:
  "processLectureBody sampleEnv ''L1'' p w
     = (Inr (),
        logged UnlinkSync
          (persist ''L1''
             [SummaryMd ''Hello world.'', SummaryHtml ''<p>Hello world.</p>'',
              Quizzes (Some (JArray [JObject [(''question'', JString ''q''),
                 (''options'', JArray [JString ''c'', JString ''a'', JString ''d'', JString ''b'']),
                 (''correctAnswer'', JNum (Finite 3)),
                 (''explanation'', JString ''e'')]])),
              Slides [\<lparr>timestamp = 22, image_ref = ''/frames_L1/slide_001.png''\<rparr>,
                      \<lparr>timestamp = 45, image_ref = ''/frames_L1/slide_002.png''\<rparr>,
                      \<lparr>timestamp = 67, image_ref = ''/frames_L1/slide_003.png''\<rparr>,
                      \<lparr>timestamp = 90, image_ref = ''/frames_L1/slide_004.png''\<rparr>],
              ProcessingStage ''complete'', ProcessingError None]
          (logged ExtractFrames (logged GenerateQuizzes (logged Remark (logged GenerateSummary
          (persist ''L1'' [ProcessingStage ''summarizing'', TranscriptMd ''Hello world.'',
                           TranscriptHtml ''<p>Hello world.</p>'']
          (logged Remark (logged FormatTranscript (logged TranscribeWithWhisper
          (persist ''L1'' [ProcessingStage ''transcribing'']
          (logged ExtractAudio
          (persist ''L1'' [ProcessingStage ''extracting_audio''] w)))))))))))))"
proof -
  have h: "extractAudio sampleEnv p = Inr ''uploads/lecture.wav''"
    "transcribeWithWhisper sampleEnv ''uploads/lecture.wav'' = Inr ''Hello world.''"
    "remark_html sampleEnv ''Hello world.'' = Inr ''<p>Hello world.</p>''"
    "existsSync sampleEnv ''uploads/lecture.wav''"
    "unlinkSync sampleEnv ''uploads/lecture.wav'' = Inr ()"
    by (simp_all add: sampleEnv_def)
  show ?thesis
    using body_success [OF h(1) h(2) sample_formatTranscript h(3) sample_generateSummary h(3)
        sample_generateQuizzes sample_extractFrames, of w] h(4,5) by simp
qed


lemma noQuiz_quizzes:
  "generateQuizzesIn noQuizEnv ''Hello world.'' = Inl (QuizGenerationError ''Hello world.'')"
proof -
  have r: "readQuizzes parseTable order ''Hello world.''
             = Inl (Error ''AI response did not contain a JSON array.'')" for order
    by (simp add: readQuizzes_eval)
  have a: "snd (callAI (OPENROUTER_API_KEY noQuizEnv) (OPENROUTER_MODEL noQuizEnv)
             (axios_post noQuizEnv) msgs 1500) = Inr ''Hello world.''" for msgs
    by (simp add: callAI_def noQuizEnv_def sampleEnv_def)
  have p: "JSON_parse noQuizEnv = parseTable"
    by (simp add: noQuizEnv_def sampleEnv_def)
  show ?thesis
    unfolding generateQuizzesIn_def p
    by (subst generateQuizzes_first_fails [where response = "''Hello world.''"])
       (simp_all add: a r second_attempt)
qed

lemma noQuiz_body:
  "processLectureBody noQuizEnv i p w
     = (Inl (QuizGenerationError ''Hello world.''),
        logged GenerateQuizzes (logged Remark (logged GenerateSummary
          (persist i [ProcessingStage ''summarizing'', TranscriptMd ''Hello world.'',
                      TranscriptHtml ''<p>Hello world.</p>'']
          (logged Remark (logged FormatTranscript (logged TranscribeWithWhisper
          (persist i [ProcessingStage ''transcribing'']
          (logged ExtractAudio
          (persist i [ProcessingStage ''extracting_audio''] w))))))))))"
proof -
  have e: "extractAudio noQuizEnv p = Inr ''uploads/lecture.wav''"
    "transcribeWithWhisper noQuizEnv ''uploads/lecture.wav'' = Inr ''Hello world.''"
    "remark_html noQuizEnv ''Hello world.'' = Inr ''<p>Hello world.</p>''"
    by (simp_all add: noQuizEnv_def sampleEnv_def)
  have f: "formatTranscript noQuizEnv ''Hello world.'' = Inr ''Hello world.''"
    by (simp add: formatTranscript_def callAI_def noQuizEnv_def sampleEnv_def)
  have g: "generateSummary noQuizEnv ''Hello world.'' = Inr ''Hello world.''"
    by (simp add: generateSummary_def callAI_def noQuizEnv_def sampleEnv_def)
  show ?thesis
    unfolding processLectureBody_def
    by (simp add: andThen_update andThen_await e f g noQuiz_quizzes)
qed

subsection \<open>Order of the persisted stages\<close>

text \<open>
  C1. In a file-sourced run in which every stage succeeds, the log of the run is exactly:
  the stage \<open>extracting_audio\<close>, audio extraction, the stage \<open>transcribing\<close>,
  transcription, formatting and rendering, one update with the stage \<open>summarizing\<close>
  and the transcript and its markup, the summary, its rendering, the quizzes and the
  frames, and one final update with the summary and its markup, the quizzes, the slides,
  the stage \<open>complete\<close> and a cleared error (then the audio file is removed, if it
  exists). So the persisted stage values are \<open>extracting_audio, transcribing,
  summarizing, complete\<close>, each written before the work of its stage. In a
  YouTube-sourced run the stage \<open>downloading\<close>, the download and the update of the
  video path come first.
\<close>

theorem pipeline_order:
  assumes "extractAudio E path = Inr audioPath"
    and "transcribeWithWhisper E audioPath = Inr raw"
    and "formatTranscript E raw = Inr t"
    and "remark_html E t = Inr th"
    and "generateSummary E t = Inr s"
    and "remark_html E s = Inr sh"
    and "generateQuizzesIn E t = Inr qz"
    and "snd (extractFrames E path lectureId) = Inr sl"
    and "existsSync E audioPath \<longrightarrow> unlinkSync E audioPath = Inr ()"
  shows "since w (snd (processLecture E lectureId path ttl w))
           = [Update lectureId [ProcessingStage ''extracting_audio''],
              Call ExtractAudio,
              Update lectureId [ProcessingStage ''transcribing''],
              Call TranscribeWithWhisper,
              Call FormatTranscript,
              Call Remark,
              Update lectureId [ProcessingStage ''summarizing'', TranscriptMd t, TranscriptHtml th],
              Call GenerateSummary,
              Call Remark,
              Call GenerateQuizzes,
              Call ExtractFrames,
              Update lectureId [SummaryMd s, SummaryHtml sh, Quizzes qz, Slides sl,
                                ProcessingStage ''complete'', ProcessingError None]]
             @ (if existsSync E audioPath then [Call UnlinkSync] else [])
         \<and> persistedStages (since w (snd (processLecture E lectureId path ttl w)))
           = [''extracting_audio'', ''transcribing'', ''summarizing'', ''complete'']
         \<and> (downloadYouTubeVideo E link lectureId = Inr path \<longrightarrow>
              since w (snd (processYouTubeLecture E lectureId link ttl w))
                = [Update lectureId [ProcessingStage ''downloading''],
                   Call DownloadYouTubeVideo,
                   Update lectureId [VideoPath path],
                   Update lectureId [ProcessingStage ''extracting_audio''],
                   Call ExtractAudio,
                   Update lectureId [ProcessingStage ''transcribing''],
                   Call TranscribeWithWhisper,
                   Call FormatTranscript,
                   Call Remark,
                   Update lectureId [ProcessingStage ''summarizing'', TranscriptMd t,
                                     TranscriptHtml th],
                   Call GenerateSummary,
                   Call Remark,
                   Call GenerateQuizzes,
                   Call ExtractFrames,
                   Update lectureId [SummaryMd s, SummaryHtml sh, Quizzes qz, Slides sl,
                                     ProcessingStage ''complete'', ProcessingError None]]
                  @ (if existsSync E audioPath then [Call UnlinkSync] else [])
              \<and> persistedStages (since w (snd (processYouTubeLecture E lectureId link ttl w)))
                = [''downloading'', ''extracting_audio'', ''transcribing'', ''summarizing'',
                   ''complete''])"
proof -
  note body = body_success [OF assms]
  have direct: "\<And>v. since v (snd (processLecture E lectureId path ttl v))
           = [Update lectureId [ProcessingStage ''extracting_audio''],
              Call ExtractAudio,
              Update lectureId [ProcessingStage ''transcribing''],
              Call TranscribeWithWhisper,
              Call FormatTranscript,
              Call Remark,
              Update lectureId [ProcessingStage ''summarizing'', TranscriptMd t, TranscriptHtml th],
              Call GenerateSummary,
              Call Remark,
              Call GenerateQuizzes,
              Call ExtractFrames,
              Update lectureId [SummaryMd s, SummaryHtml sh, Quizzes qz, Slides sl,
                                ProcessingStage ''complete'', ProcessingError None]]
             @ (if existsSync E audioPath then [Call UnlinkSync] else [])"
    by (rule since_append)
       (simp add: processLecture_def tryCatch_Inr [OF body] trace_simps)
  have tube: "since w (snd (processYouTubeLecture E lectureId link ttl w))
                = [Update lectureId [ProcessingStage ''downloading''],
                   Call DownloadYouTubeVideo,
                   Update lectureId [VideoPath path]]
                  @ since (persist lectureId [VideoPath path] (logged DownloadYouTubeVideo
                      (persist lectureId [ProcessingStage ''downloading''] w)))
                     (snd (processLecture E lectureId path ttl
                       (persist lectureId [VideoPath path] (logged DownloadYouTubeVideo
                         (persist lectureId [ProcessingStage ''downloading''] w)))))"
    if "downloadYouTubeVideo E link lectureId = Inr path"
  proof -
    let ?v = "persist lectureId [VideoPath path] (logged DownloadYouTubeVideo
                (persist lectureId [ProcessingStage ''downloading''] w))"
    have inner: "processLecture E lectureId path ttl ?v
                   = (Inr (), snd (processLecture E lectureId path ttl ?v))"
      by (simp add: processLecture_def tryCatch_Inr [OF body])
    have "processYouTubeLecture E lectureId link ttl w
            = (Inr (), snd (processLecture E lectureId path ttl ?v))"
      unfolding processYouTubeLecture_def
      by (rule tryCatch_Inr)
         (simp add: andThen_update andThen_await_Inr [OF that] inner [symmetric])
    moreover have "trace (snd (processLecture E lectureId path ttl ?v))
                     = trace ?v @ since ?v (snd (processLecture E lectureId path ttl ?v))"
      by (simp add: since_def processLecture_def tryCatch_Inr [OF body] trace_simps)
    ultimately show ?thesis
      by (intro since_append) (simp add: trace_simps)
  qed
  show ?thesis
    using direct [of w] tube by (auto simp: direct)
qed

text \<open>
  The run of the sample environment, from an upload and from a YouTube link.
\<close>

theorem pipeline_order_witness:
  "since emptyWorld (snd (processLecture sampleEnv ''L1'' ''uploads/lecture.mp4'' ''Intro'' emptyWorld))
     = [Update ''L1'' [ProcessingStage ''extracting_audio''],
        Call ExtractAudio,
        Update ''L1'' [ProcessingStage ''transcribing''],
        Call TranscribeWithWhisper,
        Call FormatTranscript,
        Call Remark,
        Update ''L1'' [ProcessingStage ''summarizing'', TranscriptMd ''Hello world.'',
                       TranscriptHtml ''<p>Hello world.</p>''],
        Call GenerateSummary,
        Call Remark,
        Call GenerateQuizzes,
        Call ExtractFrames,
        Update ''L1''
          [SummaryMd ''Hello world.'', SummaryHtml ''<p>Hello world.</p>'',
           Quizzes (Some (JArray [JObject [(''question'', JString ''q''),
              (''options'', JArray [JString ''c'', JString ''a'', JString ''d'', JString ''b'']),
              (''correctAnswer'', JNum (Finite 3)),
              (''explanation'', JString ''e'')]])),
           Slides [\<lparr>timestamp = 22, image_ref = ''/frames_L1/slide_001.png''\<rparr>,
                   \<lparr>timestamp = 45, image_ref = ''/frames_L1/slide_002.png''\<rparr>,
                   \<lparr>timestamp = 67, image_ref = ''/frames_L1/slide_003.png''\<rparr>,
                   \<lparr>timestamp = 90, image_ref = ''/frames_L1/slide_004.png''\<rparr>],
           ProcessingStage ''complete'', ProcessingError None],
        Call UnlinkSync]
   \<and> persistedStages
         (since emptyWorld (snd (processLecture sampleEnv ''L1'' ''uploads/lecture.mp4'' ''Intro'' emptyWorld)))
       = [''extracting_audio'', ''transcribing'', ''summarizing'', ''complete'']
   \<and> persistedStages
         (since emptyWorld
            (snd (processYouTubeLecture sampleEnv ''L1'' ''https://youtu.be/x'' ''Intro'' emptyWorld)))
       = [''downloading'', ''extracting_audio'', ''transcribing'', ''summarizing'', ''complete'']"
proof -
  have h1: "\<And>p. extractAudio sampleEnv p = Inr ''uploads/lecture.wav''"
    and h2: "transcribeWithWhisper sampleEnv ''uploads/lecture.wav'' = Inr ''Hello world.''"
    and h4: "remark_html sampleEnv ''Hello world.'' = Inr ''<p>Hello world.</p>''"
    and h9: "existsSync sampleEnv ''uploads/lecture.wav''
               \<longrightarrow> unlinkSync sampleEnv ''uploads/lecture.wav'' = Inr ()"
    and dl: "downloadYouTubeVideo sampleEnv ''https://youtu.be/x'' ''L1'' = Inr ''uploads/L1-youtube.mp4''"
    and ex: "existsSync sampleEnv ''uploads/lecture.wav''"
    by (simp_all add: sampleEnv_def)
  note direct = pipeline_order [where path = "''uploads/lecture.mp4''" and w = emptyWorld
      and ttl = "''Intro''" and link = "''https://youtu.be/x''", OF h1 h2 sample_formatTranscript h4 sample_generateSummary h4
        sample_generateQuizzes sample_extractFrames h9]
  note tube = pipeline_order [where path = "''uploads/L1-youtube.mp4''" and w = emptyWorld
      and ttl = "''Intro''" and link = "''https://youtu.be/x''", OF h1 h2 sample_formatTranscript h4 sample_generateSummary h4
        sample_generateQuizzes sample_extractFrames h9]
  show ?thesis
    using direct tube dl ex by simp
qed

subsection \<open>Failure of a stage\<close>







subsection \<open>The invariant of the record\<close>

lemma processLecture_history:
  assumes "db w i = Some l0" and "processingError l0 = None" and "stageInvariant l0"
  shows "(\<forall>l\<in>set (history i (since w (snd (processLecture E i path ttl w))) l0). stageInvariant l)
         \<and> db (snd (processLecture E i path ttl w)) i
             = Some (last (history i (since w (snd (processLecture E i path ttl w))) l0))"
  using assms
  unfolding processLecture_unfold processLectureBody_def
  apply (simp add: andThen_update andThen_await await_eq skip_def split: sum.splits if_splits)
  apply (auto simp: db_persist_id db_logged since_def trace_simps applyUpdate_def stageInvariant_def stageValues_def)
  done

lemma processYouTubeLecture_history:
  assumes "db w i = Some l0" and "processingError l0 = None" and "stageInvariant l0"
  shows "(\<forall>l\<in>set (history i (since w (snd (processYouTubeLecture E i link ttl w))) l0).
            stageInvariant l)
         \<and> db (snd (processYouTubeLecture E i link ttl w)) i
             = Some (last (history i (since w (snd (processYouTubeLecture E i link ttl w))) l0))"
  using assms
  unfolding processYouTubeLecture_unfold processLecture_unfold processLectureBody_def afterDownload_def
  apply (simp add: andThen_update andThen_await await_eq skip_def split: sum.splits if_splits)
  apply (auto simp: db_persist_id db_logged since_def trace_simps applyUpdate_def stageInvariant_def stageValues_def)
  done

text \<open>
  C6. Every state a record goes through, from its creation by one of the two routes
  through each update of its run, has a stage among the stage values of the design and
  an error message exactly when the stage is \<open>failed\<close>; the record in the store at the
  end of the run is the last of these states.
\<close>

theorem stage_invariant_holds:
  "(\<forall>l\<in>set (history lectureId (since w (snd (upload E lectureId ttl path now w)))
              (newLecture ttl (Some path) None ''file'' now)). stageInvariant l)
   \<and> db (snd (upload E lectureId ttl path now w)) lectureId
       = Some (last (history lectureId (since w (snd (upload E lectureId ttl path now w)))
                 (newLecture ttl (Some path) None ''file'' now)))
   \<and> (\<forall>l\<in>set (history lectureId (since w (snd (uploadYoutube E lectureId ttl link now w)))
              (newLecture ttl None (Some link) ''youtube'' now)). stageInvariant l)
   \<and> db (snd (uploadYoutube E lectureId ttl link now w)) lectureId
       = Some (last (history lectureId (since w (snd (uploadYoutube E lectureId ttl link now w)))
                 (newLecture ttl None (Some link) ''youtube'' now)))"
proof -
  have fresh: "processingError (newLecture ttl p q src now) = None"
    "stageInvariant (newLecture ttl p q src now)" for p q src
    by (simp_all add: newLecture_def stageInvariant_def stageValues_def)
  let ?l1 = "newLecture ttl (Some path) None ''file'' now"
  let ?l2 = "newLecture ttl None (Some link) ''youtube'' now"
  have s1: "since w (snd (upload E lectureId ttl path now w))
              = since (save lectureId ?l1 w) (snd (processLecture E lectureId path ttl (save lectureId ?l1 w)))"
    by (simp add: upload_def since_def save_def)
  have s2: "since w (snd (uploadYoutube E lectureId ttl link now w))
              = since (save lectureId ?l2 w)
                  (snd (processYouTubeLecture E lectureId link ttl (save lectureId ?l2 w)))"
    by (simp add: uploadYoutube_def since_def save_def)
  have "db (save lectureId ?l1 w) lectureId = Some ?l1" by (simp add: save_def)
  from processLecture_history [OF this fresh, of E path ttl]
  have a: "(\<forall>l\<in>set (history lectureId (since w (snd (upload E lectureId ttl path now w))) ?l1).
              stageInvariant l)
         \<and> db (snd (upload E lectureId ttl path now w)) lectureId
             = Some (last (history lectureId (since w (snd (upload E lectureId ttl path now w))) ?l1))"
    unfolding s1 by (simp add: upload_def)
  have "db (save lectureId ?l2 w) lectureId = Some ?l2" by (simp add: save_def)
  from processYouTubeLecture_history [OF this fresh, of E link ttl]
  have b: "(\<forall>l\<in>set (history lectureId (since w (snd (uploadYoutube E lectureId ttl link now w))) ?l2).
              stageInvariant l)
         \<and> db (snd (uploadYoutube E lectureId ttl link now w)) lectureId
             = Some (last (history lectureId (since w (snd (uploadYoutube E lectureId ttl link now w))) ?l2))"
    unfolding s2 by (simp add: uploadYoutube_def)
  from a b show ?thesis by blast
qed

text \<open>
  The states of a file-sourced run that fails in quiz generation and of a
  YouTube-sourced run that completes.
\<close>

theorem stage_invariant_holds_witness:
  "list_all stageInvariant
     (history ''L1'' (since emptyWorld (snd (upload noQuizEnv ''L1'' ''Intro'' ''uploads/lecture.mp4'' 0 emptyWorld)))
        (newLecture ''Intro'' (Some ''uploads/lecture.mp4'') None ''file'' 0))
   \<and> map (\<lambda>l. (processingStage l, processingError l))
       (history ''L1'' (since emptyWorld (snd (upload noQuizEnv ''L1'' ''Intro'' ''uploads/lecture.mp4'' 0 emptyWorld)))
          (newLecture ''Intro'' (Some ''uploads/lecture.mp4'') None ''file'' 0))
     = [(''uploaded'', None), (''extracting_audio'', None), (''transcribing'', None),
        (''summarizing'', None),
        (''failed'', Some (message (QuizGenerationError ''Hello world.'')))]
   \<and> list_all stageInvariant
     (history ''L1'' (since emptyWorld (snd (uploadYoutube sampleEnv ''L1'' ''Intro'' ''https://youtu.be/x'' 0 emptyWorld)))
        (newLecture ''Intro'' None (Some ''https://youtu.be/x'') ''youtube'' 0))
   \<and> map (\<lambda>l. (processingStage l, processingError l))
       (history ''L1'' (since emptyWorld (snd (uploadYoutube sampleEnv ''L1'' ''Intro'' ''https://youtu.be/x'' 0 emptyWorld)))
          (newLecture ''Intro'' None (Some ''https://youtu.be/x'') ''youtube'' 0))
     = [(''uploaded'', None), (''downloading'', None), (''downloading'', None),
        (''extracting_audio'', None), (''transcribing'', None), (''summarizing'', None),
        (''complete'', None)]"
proof -
  note a = stage_invariant_holds [where lectureId = "''L1''" and w = emptyWorld and E = noQuizEnv
      and ttl = "''Intro''" and path = "''uploads/lecture.mp4''" and now = 0
      and link = "''https://youtu.be/x''"]
  note b = stage_invariant_holds [where lectureId = "''L1''" and w = emptyWorld and E = sampleEnv
      and ttl = "''Intro''" and path = "''uploads/lecture.mp4''" and now = 0
      and link = "''https://youtu.be/x''"]
  have t1: "since emptyWorld (snd (upload noQuizEnv ''L1'' ''Intro'' ''uploads/lecture.mp4'' 0 emptyWorld))
       = [Update ''L1'' [ProcessingStage ''extracting_audio''],
          Call ExtractAudio,
          Update ''L1'' [ProcessingStage ''transcribing''],
          Call TranscribeWithWhisper,
          Call FormatTranscript,
          Call Remark,
          Update ''L1'' [ProcessingStage ''summarizing'', TranscriptMd ''Hello world.'',
                         TranscriptHtml ''<p>Hello world.</p>''],
          Call GenerateSummary,
          Call Remark,
          Call GenerateQuizzes,
          Update ''L1'' [ProcessingError (Some (message (QuizGenerationError ''Hello world.''))),
                         ProcessingStage ''failed'']]"
    by (simp add: upload_def processLecture_unfold noQuiz_body since_def trace_simps save_def
          emptyWorld_def)
  have dl: "downloadYouTubeVideo sampleEnv ''https://youtu.be/x'' ''L1'' = Inr ''uploads/L1-youtube.mp4''"
    by (simp add: sampleEnv_def)
  have t2: "map (\<lambda>l. (processingStage l, processingError l))
       (history ''L1'' (since emptyWorld (snd (uploadYoutube sampleEnv ''L1'' ''Intro'' ''https://youtu.be/x'' 0 emptyWorld)))
          (newLecture ''Intro'' None (Some ''https://youtu.be/x'') ''youtube'' 0))
     = [(''uploaded'', None), (''downloading'', None), (''downloading'', None),
        (''extracting_audio'', None), (''transcribing'', None), (''summarizing'', None),
        (''complete'', None)]"
    by (simp add: uploadYoutube_def processYouTubeLecture_unfold dl processLecture_unfold
          sample_body afterDownload_def since_def trace_simps save_def emptyWorld_def
          applyUpdate_def newLecture_def)
  show ?thesis
    using a b t2 by (simp add: t1 list_all_iff applyUpdate_def newLecture_def)
qed

subsection \<open>The progress report\<close>

text \<open>
  C10. For a lecture in the store the report says \<open>isComplete\<close> exactly when the
  persisted stage is \<open>complete\<close>, and each of \<open>hasTranscript\<close>, \<open>hasSummary\<close>,
  \<open>hasQuizzes\<close> and \<open>hasSlides\<close> exactly when the field is present and not empty.
\<close>

theorem status_report:
  assumes "store lectureId = Some l"
  shows "\<exists>r. status store lectureId = Some r
           \<and> (isComplete r = (processingStage l = ''complete''))
           \<and> (processingStage l \<noteq> ''complete'' \<longrightarrow> \<not> isComplete r)
           \<and> (hasTranscript r = (\<exists>s. transcriptMd l = Some s \<and> s \<noteq> []))
           \<and> (hasSummary r = (\<exists>s. summaryMd l = Some s \<and> s \<noteq> []))
           \<and> (hasQuizzes r = (quizzes l \<noteq> []))
           \<and> (hasSlides r = (slides l \<noteq> []))"
  using assms by (auto simp: status_def truthyString_def split: option.splits)

text \<open>
  A lecture in the stage \<open>summarizing\<close> and a complete one.
\<close>

theorem status_report_witness:
  "status [''L1'' \<mapsto> (newLecture ''Intro'' (Some ''uploads/lecture.mp4'') None ''file'' 0)
             \<lparr> processingStage := ''summarizing'', transcriptMd := Some ''Hello world.'' \<rparr>] ''L1''
     = Some \<lparr> isComplete = False, stage = ''summarizing'', error_text = None,
              hasTranscript = True, hasSummary = False, hasQuizzes = False, hasSlides = False \<rparr>
   \<and> status [''L1'' \<mapsto> (newLecture ''Intro'' (Some ''uploads/lecture.mp4'') None ''file'' 0)
             \<lparr> processingStage := ''complete'', transcriptMd := Some ''Hello world.'',
               summaryMd := Some ''Hello world.'', quizzes := [sampleQuiz] \<rparr>] ''L1''
     = Some \<lparr> isComplete = True, stage = ''complete'', error_text = None,
              hasTranscript = True, hasSummary = True, hasQuizzes = True, hasSlides = False \<rparr>"
proof -
  let ?l1 = "(newLecture ''Intro'' (Some ''uploads/lecture.mp4'') None ''file'' 0)
             \<lparr> processingStage := ''summarizing'', transcriptMd := Some ''Hello world.'' \<rparr>"
  let ?l2 = "(newLecture ''Intro'' (Some ''uploads/lecture.mp4'') None ''file'' 0)
             \<lparr> processingStage := ''complete'', transcriptMd := Some ''Hello world.'',
               summaryMd := Some ''Hello world.'', quizzes := [sampleQuiz] \<rparr>"
  have "[''L1'' \<mapsto> ?l1] ''L1'' = Some ?l1" and "[''L1'' \<mapsto> ?l2] ''L1'' = Some ?l2"
    by simp_all
  from status_report [where store = "[''L1'' \<mapsto> ?l1]" and lectureId = "''L1''" and l = ?l1, OF this(1)]
    status_report [where store = "[''L1'' \<mapsto> ?l2]" and lectureId = "''L1''" and l = ?l2, OF this(2)]
  show ?thesis
    by (auto simp: status_def truthyString_def newLecture_def)
qed

end
